theory Spec2Isabelle
  imports Main "HOL-Library.Sublist" "HOL-Library.Monad_Syntax"
begin

section \<open>Layout constants\<close>

text \<open>The constants of \<^verbatim>\<open>amd_zen_ucode.py\<close>. Python integers are unbounded, so
  addresses and sizes that take part in address arithmetic are \<open>int\<close>.\<close>

definition PATCH_SIZE :: int where "PATCH_SIZE = 0x3820"
definition HDR_OFF :: int where "HDR_OFF = 0x0000"
definition RANDOM_OFF :: int where "RANDOM_OFF = 0x0020"
definition UCREG_OFF :: int where "UCREG_OFF = 0x0320"
definition UCREG_SIZE :: int where "UCREG_SIZE = 0x3500"
definition UOP_SIZE :: int where "UOP_SIZE = 4"
definition UOP_COUNT :: int where "UOP_COUNT = UCREG_SIZE div UOP_SIZE"

definition T_HDR :: string where "T_HDR = ''AMD_MC_Header''"
definition T_RAND :: string where "T_RAND = ''AMD_MC_RandomBlocks''"
definition T_PATCH :: string where "T_PATCH = ''AMD_MC_Patch''"
definition T_ENUM :: string where "T_ENUM = ''AMD_Zen_Opcode''"
definition T_UOP :: string where "T_UOP = ''AMD_Zen_MicroOp''"
definition T_REG :: string where "T_REG = ''AMD_Zen_MicrocodeRegion''"

text \<open>The dictionary \<^verbatim>\<open>ZEN_OPCODE_ENUM\<close>, in insertion order (the order in which
  Python iterates over it).\<close>

definition ZEN_OPCODE_ENUM :: "(string \<times> nat) list" where
  "ZEN_OPCODE_ENUM =
     [(''AMD_ZEN_UOP_UNKNOWN'', 0x00),
      (''AMD_ZEN_TYPE5_READ'', 0xDE),
      (''AMD_ZEN_TYPE7_ALU_OR'', 0xBE),
      (''AMD_ZEN_TYPE3_WRITE'', 0xA0),
      (''AMD_ZEN_TYPE_REG_NOP'', 0xFF),
      (''AMD_ZEN_UOP_21'', 0x21),
      (''AMD_ZEN_UOP_41'', 0x41),
      (''AMD_ZEN_UOP_5F'', 0x5F)]"

section \<open>Host types\<close>

text \<open>Modelled from the spec: the type objects of the host platform (Binary Ninja's
  \<^verbatim>\<open>Type\<close>), which the module builds but does not implement. An integer type has a
  width in bytes and a signedness, an enumeration a width, a signedness and its
  members, an array an element type and a count, a structure a packed flag and its
  members in order, and a named type reference the name and the type it stands for.\<close>

datatype ty =
    TInt nat bool
  | TEnum nat bool "(string \<times> nat) list"
  | TArray ty nat
  | TStruct bool "(ty \<times> string) list"
  | TNamed string ty





section \<open>Exceptions and text formatting\<close>

text \<open>The exceptions the module can see: a \<^verbatim>\<open>TypeError\<close> of the host, any other
  exception of the host, and the \<^verbatim>\<open>RuntimeError\<close> the module raises itself. Each
  carries its message.\<close>

datatype exn = TypeError string | HostError string | RuntimeError string

fun exn_text :: "exn \<Rightarrow> string" where
  "exn_text (TypeError m) = m"
| "exn_text (HostError m) = m"
| "exn_text (RuntimeError m) = m"

fun is_TypeError :: "exn \<Rightarrow> bool" where
  "is_TypeError (TypeError m) = True"
| "is_TypeError e = False"

definition digit_char :: "nat \<Rightarrow> char" where
  "digit_char d = ''0123456789abcdef'' ! d"

text \<open>Decimal and hexadecimal text of a natural number, as Python's \<^verbatim>\<open>{n}\<close> and
  \<^verbatim>\<open>{n:x}\<close> print it.\<close>

function dec :: "nat \<Rightarrow> string" where
  "dec n = (if n < 10 then [digit_char n] else dec (n div 10) @ [digit_char (n mod 10)])"
  by pat_completeness auto
termination
  by (relation "measure id") auto

function hex :: "nat \<Rightarrow> string" where
  "hex n = (if n < 16 then [digit_char n] else hex (n div 16) @ [digit_char (n mod 16)])"
  by pat_completeness auto
termination
  by (relation "measure id") auto

definition str_int :: "int \<Rightarrow> string" where
  "str_int i = (if i < 0 then ''-'' @ dec (nat (- i)) else dec (nat i))"

definition hex_int :: "int \<Rightarrow> string" where
  "hex_int i = (if i < 0 then ''-'' @ hex (nat (- i)) else hex (nat i))"

definition hex_alt :: "int \<Rightarrow> string" where
  "hex_alt i = (if i < 0 then ''-0x'' @ hex (nat (- i)) else ''0x'' @ hex (nat i))"

section \<open>The host's type constructors\<close>

text \<open>Modelled from the spec: the module-level interface of the host
  (\<^verbatim>\<open>Type\<close>, \<^verbatim>\<open>StructureBuilder\<close>, \<^verbatim>\<open>EnumerationBuilder\<close>), which differs between
  builds. For each call that the module guards with \<^verbatim>\<open>try\<close> or \<^verbatim>\<open>hasattr\<close>, the
  record says what this build does: \<open>None\<close> for a call that works, \<open>Some e\<close> for one
  that raises \<open>e\<close>; an attribute that \<^verbatim>\<open>hasattr\<close> tests is an option around that.
  The calls the module makes unguarded (creating a structure builder, appending to
  it, \<^verbatim>\<open>Type.array\<close>, \<^verbatim>\<open>Type.named_type_from_type\<close>) always work.\<close>

datatype int_call = IntFalse nat | IntZero nat | IntOnly nat

datatype enum_call = EnumWidthBuilder | EnumBuilderWidth | EnumBuilder

record sbuilder =
  sb_packed :: bool
  sb_members :: "(ty \<times> string) list"

record ebuilder =
  eb_width :: nat
  eb_signed :: bool
  eb_members :: "(string \<times> nat) list"

record api =
  Type_int :: "int_call \<Rightarrow> exn option"
  Type_structure :: "(sbuilder \<Rightarrow> exn option) option"
  Type_structure_type :: "(sbuilder \<Rightarrow> exn option) option"
  EnumerationBuilder_create :: "exn option"
  EnumerationBuilder_init :: "exn option"
  eb_default_width :: nat
  eb_default_signed :: bool
  eb_set_width :: "exn option"
  eb_set_signed :: "exn option option"
  eb_append :: "string \<Rightarrow> nat \<Rightarrow> exn option"
  Type_enumeration :: "exn option option"
  Type_enumeration_type :: "(enum_call \<Rightarrow> exn option) option"

definition StructureBuilder_create :: sbuilder where
  "StructureBuilder_create = \<lparr>sb_packed = False, sb_members = []\<rparr>"

definition sb_append :: "ty \<Rightarrow> string \<Rightarrow> sbuilder \<Rightarrow> sbuilder" where
  "sb_append t n sb = sb\<lparr>sb_members := sb_members sb @ [(t, n)]\<rparr>"

definition struct_of :: "sbuilder \<Rightarrow> ty" where
  "struct_of sb = TStruct (sb_packed sb) (sb_members sb)"

text \<open>\<^verbatim>\<open>_uint(width)\<close>: three call shapes of \<^verbatim>\<open>Type.int\<close>. The first two catch only
  \<^verbatim>\<open>TypeError\<close>; the last catches every exception and raises \<^verbatim>\<open>RuntimeError\<close>.
  \<^verbatim>\<open>Type.int(width)\<close> has no signedness argument and gives the host's default, a
  signed type.\<close>

definition uint :: "api \<Rightarrow> nat \<Rightarrow> exn + ty" where
  "uint a w =
     (case Type_int a (IntFalse w) of
        None \<Rightarrow> Inr (TInt w False)
      | Some e1 \<Rightarrow>
          if \<not> is_TypeError e1 then Inl e1
          else (case Type_int a (IntZero w) of
                  None \<Rightarrow> Inr (TInt w False)
                | Some e2 \<Rightarrow>
                    if \<not> is_TypeError e2 then Inl e2
                    else (case Type_int a (IntOnly w) of
                            None \<Rightarrow> Inr (TInt w True)
                          | Some e \<Rightarrow>
                              Inl (RuntimeError
                                (''Cannot construct Type.int('' @ dec w @ ''): '' @ exn_text e)))))"

definition u8 :: "api \<Rightarrow> exn + ty" where "u8 a = uint a 1"
definition u16 :: "api \<Rightarrow> exn + ty" where "u16 a = uint a 2"
definition u32 :: "api \<Rightarrow> exn + ty" where "u32 a = uint a 4"

text \<open>\<^verbatim>\<open>_type_structure(sb)\<close>: \<^verbatim>\<open>Type.structure\<close> if the build has it and it does not
  raise, else \<^verbatim>\<open>Type.structure_type\<close> if the build has it (its exception is not
  caught), else \<^verbatim>\<open>RuntimeError\<close>.\<close>

definition no_structure_msg :: string where
  "no_structure_msg = ''No Type.structure / Type.structure_type available on this BN build''"

definition type_structure :: "api \<Rightarrow> sbuilder \<Rightarrow> exn + ty" where
  "type_structure a sb =
     (case (case Type_structure a of
              None \<Rightarrow> None
            | Some f \<Rightarrow> (case f sb of None \<Rightarrow> Some (struct_of sb) | Some e \<Rightarrow> None)) of
        Some t \<Rightarrow> Inr t
      | None \<Rightarrow>
          (case Type_structure_type a of
             Some g \<Rightarrow> (case g sb of None \<Rightarrow> Inr (struct_of sb) | Some e \<Rightarrow> Inl e)
           | None \<Rightarrow> Inl (RuntimeError no_structure_msg)))"

text \<open>The loop of \<^verbatim>\<open>_make_enum_type_best_effort\<close> over the dictionary: the first
  \<^verbatim>\<open>append\<close> that raises makes the whole function return \<^verbatim>\<open>None\<close>.\<close>

fun eb_append_all :: "api \<Rightarrow> (string \<times> nat) list \<Rightarrow> ebuilder \<Rightarrow> ebuilder option" where
  "eb_append_all a [] eb = Some eb"
| "eb_append_all a ((k, v) # kvs) eb =
     (case eb_append a k v of
        Some e \<Rightarrow> None
      | None \<Rightarrow> eb_append_all a kvs (eb\<lparr>eb_members := eb_members eb @ [(k, v)]\<rparr>))"

definition enum_of :: "nat \<Rightarrow> ebuilder \<Rightarrow> ty" where
  "enum_of w eb = TEnum w (eb_signed eb) (eb_members eb)"

definition make_enum_type_best_effort :: "api \<Rightarrow> ty option" where
  "make_enum_type_best_effort a =
     (let eb0 = \<lparr>eb_width = eb_default_width a, eb_signed = eb_default_signed a,
                 eb_members = []\<rparr>;
          eb = (case EnumerationBuilder_create a of
                  None \<Rightarrow> Some eb0
                | Some e \<Rightarrow> (case EnumerationBuilder_init a of
                               None \<Rightarrow> Some eb0
                             | Some e' \<Rightarrow> None))
      in case eb of
           None \<Rightarrow> None
         | Some eb \<Rightarrow>
             (let eb = (case eb_set_width a of
                          None \<Rightarrow> eb\<lparr>eb_width := 1\<rparr>
                        | Some e \<Rightarrow> eb);
                  eb = (case eb_set_signed a of
                          None \<Rightarrow> eb
                        | Some None \<Rightarrow> eb\<lparr>eb_signed := False\<rparr>
                        | Some (Some e) \<Rightarrow> eb)
              in case eb_append_all a ZEN_OPCODE_ENUM eb of
                   None \<Rightarrow> None
                 | Some eb \<Rightarrow>
                     (if Type_enumeration a = Some None
                      then Some (enum_of (eb_width eb) eb)
                      else (case Type_enumeration_type a of
                              None \<Rightarrow> None
                            | Some g \<Rightarrow>
                                if g EnumWidthBuilder = None then Some (enum_of 1 eb)
                                else if g EnumBuilderWidth = None then Some (enum_of 1 eb)
                                else if g EnumBuilder = None
                                     then Some (enum_of (eb_width eb) eb)
                                     else None))))"

section \<open>Building the structural types\<close>

text \<open>The five structure definitions of \<^verbatim>\<open>_ensure_types\<close>, each as the function
  from the host interface to the type it hands to \<^verbatim>\<open>define_user_type\<close>, or to the
  exception that escapes. Arguments are evaluated in the order of the source, so the
  first call that raises decides the exception.\<close>

fun append_uints :: "api \<Rightarrow> (nat \<times> string) list \<Rightarrow> sbuilder \<Rightarrow> exn + sbuilder" where
  "append_uints a [] sb = Inr sb"
| "append_uints a ((w, n) # fs) sb =
     (case uint a w of
        Inl e \<Rightarrow> Inl e
      | Inr t \<Rightarrow> append_uints a fs (sb_append t n sb))"

definition packed_builder :: sbuilder where
  "packed_builder = StructureBuilder_create\<lparr>sb_packed := True\<rparr>"

definition build_uop :: "api \<Rightarrow> ty \<Rightarrow> exn + ty" where
  "build_uop a opcode_field_t =
     (case append_uints a [(1, ''b1''), (2, ''imm16'')]
             (sb_append opcode_field_t ''opcode'' packed_builder) of
        Inl e \<Rightarrow> Inl e
      | Inr sb_uop \<Rightarrow> type_structure a sb_uop)"

definition build_reg :: "api \<Rightarrow> ty \<Rightarrow> exn + ty" where
  "build_reg a uop_named =
     type_structure a (sb_append (TArray uop_named (nat UOP_COUNT)) ''uops'' packed_builder)"

definition hdr_fields :: "(nat \<times> string) list" where
  "hdr_fields =
     [(2, ''Year''), (1, ''Day''), (1, ''Month''), (4, ''UpdateRevision''),
      (2, ''LoaderID''), (1, ''DataSize''), (1, ''InitializationFlag''),
      (4, ''DataChecksum''), (2, ''NorthBridgeVEN_ID''), (2, ''NorthBridgeDEV_ID''),
      (2, ''SouthBridgeVEN_ID''), (2, ''SouthBridgeDEV_ID''),
      (2, ''ProcessorSignature''), (1, ''NorthBridgeREV_ID''),
      (1, ''SouthBridgeREV_ID''), (1, ''BiosApiRevision''), (1, ''LoadControl''),
      (1, ''Reserved_1E''), (1, ''Reserved_1F'')]"

definition build_hdr :: "api \<Rightarrow> exn + ty" where
  "build_hdr a =
     (case append_uints a hdr_fields packed_builder of
        Inl e \<Rightarrow> Inl e
      | Inr sb_hdr \<Rightarrow> type_structure a sb_hdr)"

fun append_byte_arrays :: "api \<Rightarrow> (nat \<times> string) list \<Rightarrow> sbuilder \<Rightarrow> exn + sbuilder" where
  "append_byte_arrays a [] sb = Inr sb"
| "append_byte_arrays a ((k, n) # fs) sb =
     (case u8 a of
        Inl e \<Rightarrow> Inl e
      | Inr t \<Rightarrow> append_byte_arrays a fs (sb_append (TArray t k) n sb))"

definition build_rand :: "api \<Rightarrow> exn + ty" where
  "build_rand a =
     (case append_byte_arrays a [(0x100, ''block1''), (0x100, ''block2''), (0x100, ''block3'')]
             packed_builder of
        Inl e \<Rightarrow> Inl e
      | Inr sb_rand \<Rightarrow> type_structure a sb_rand)"

definition build_patch :: "api \<Rightarrow> ty \<Rightarrow> exn + ty" where
  "build_patch a hdr_named =
     (case append_byte_arrays a [(0x3800, ''body'')]
             (sb_append hdr_named ''hdr'' packed_builder) of
        Inl e \<Rightarrow> Inl e
      | Inr sb_patch \<Rightarrow> type_structure a sb_patch)"

section \<open>The binary view\<close>

text \<open>Modelled from the spec: the host's binary view, with the log of the host beside
  it. The registry maps a type name to its type; the variable storage holds one typed
  variable, one label and one comment per address; \<open>bv_end\<close> is the end of the
  addressable image. \<open>read_len\<close> is the length of what \<^verbatim>\<open>bv.read\<close> returns,
  \<open>undefine_fails\<close> and \<open>update_analysis_fails\<close> say whether those calls raise.
  \<open>calls\<close> records, in order, every call on the view that defines, removes or builds
  something; the queries \<^verbatim>\<open>get_type_by_name\<close>, \<^verbatim>\<open>read\<close> and \<^verbatim>\<open>end\<close> leave no
  trace.\<close>

datatype severity = Info | Warn | Error

datatype call =
    DefineUserType string ty
  | UndefineUserDataVar int
  | DefineUserDataVar int ty
  | DefineUserSymbol int string
  | SetCommentAt int string
  | ParseTypeString string
  | UpdateAnalysis

record bview =
  types :: "string \<rightharpoonup> ty"
  data_vars :: "int \<rightharpoonup> ty"
  symbols :: "int \<rightharpoonup> string"
  comments :: "int \<rightharpoonup> string"
  bv_end :: int
  read_len :: "int \<Rightarrow> int \<Rightarrow> exn + nat"
  undefine_fails :: "(int \<rightharpoonup> ty) \<Rightarrow> int \<Rightarrow> exn option"
  update_analysis_fails :: "exn option"
  log :: "(severity \<times> string) list"
  calls :: "call list"

definition log_info :: "string \<Rightarrow> bview \<Rightarrow> bview" where
  "log_info m bv = bv\<lparr>log := log bv @ [(Info, m)]\<rparr>"

definition log_warn :: "string \<Rightarrow> bview \<Rightarrow> bview" where
  "log_warn m bv = bv\<lparr>log := log bv @ [(Warn, m)]\<rparr>"

definition log_error :: "string \<Rightarrow> bview \<Rightarrow> bview" where
  "log_error m bv = bv\<lparr>log := log bv @ [(Error, m)]\<rparr>"

definition called :: "call \<Rightarrow> bview \<Rightarrow> bview" where
  "called c bv = bv\<lparr>calls := calls bv @ [c]\<rparr>"

definition define_user_type :: "string \<Rightarrow> ty \<Rightarrow> bview \<Rightarrow> bview" where
  "define_user_type n t bv = called (DefineUserType n t) (bv\<lparr>types := (types bv)(n \<mapsto> t)\<rparr>)"

definition undefine_user_data_var :: "int \<Rightarrow> bview \<Rightarrow> exn option \<times> bview" where
  "undefine_user_data_var addr bv =
     (case undefine_fails bv (data_vars bv) addr of
        Some e \<Rightarrow> (Some e, called (UndefineUserDataVar addr) bv)
      | None \<Rightarrow> (None, called (UndefineUserDataVar addr)
                         (bv\<lparr>data_vars := (data_vars bv)(addr := None)\<rparr>)))"

definition define_user_data_var :: "int \<Rightarrow> ty \<Rightarrow> bview \<Rightarrow> bview" where
  "define_user_data_var addr t bv =
     called (DefineUserDataVar addr t) (bv\<lparr>data_vars := (data_vars bv)(addr \<mapsto> t)\<rparr>)"

definition define_user_symbol :: "int \<Rightarrow> string \<Rightarrow> bview \<Rightarrow> bview" where
  "define_user_symbol addr name bv =
     called (DefineUserSymbol addr name) (bv\<lparr>symbols := (symbols bv)(addr \<mapsto> name)\<rparr>)"

definition set_comment_at :: "int \<Rightarrow> string \<Rightarrow> bview \<Rightarrow> bview" where
  "set_comment_at addr c bv =
     called (SetCommentAt addr c) (bv\<lparr>comments := (comments bv)(addr \<mapsto> c)\<rparr>)"

definition update_analysis :: "bview \<Rightarrow> exn option \<times> bview" where
  "update_analysis bv = (update_analysis_fails bv, called UpdateAnalysis bv)"

subsection \<open>The host's declaration parser\<close>

fun strip_prefix :: "string \<Rightarrow> string \<Rightarrow> string option" where
  "strip_prefix [] ys = Some ys"
| "strip_prefix (x # xs) [] = None"
| "strip_prefix (x # xs) (y # ys) = (if x = y then strip_prefix xs ys else None)"

definition is_digit :: "char \<Rightarrow> bool" where
  "is_digit c = (c \<in> set ''0123456789'')"

definition digit_val :: "char \<Rightarrow> nat" where
  "digit_val c = of_char c - 48"

fun undec_acc :: "nat \<Rightarrow> string \<Rightarrow> nat option" where
  "undec_acc acc [] = Some acc"
| "undec_acc acc (c # cs) =
     (if is_digit c then undec_acc (10 * acc + digit_val c) cs else None)"

definition undec :: "string \<Rightarrow> nat option" where
  "undec s = (if s = [] then None else undec_acc 0 s)"

text \<open>Modelled from the spec: \<^verbatim>\<open>bv.parse_type_string\<close>, for the one shape of
  declaration the module writes, \<^verbatim>\<open>struct NAME { ELEM FIELD[COUNT]; };\<close>. The result
  is a structure (not packed) whose one member is an array of \<open>COUNT\<close> references to
  the registered type \<open>ELEM\<close>; a declaration of another shape, or one naming a type
  that is not registered, raises. The registry is only read.\<close>

definition parse_array_struct :: "string \<Rightarrow> (string \<times> string \<times> string \<times> nat) option" where
  "parse_array_struct s = do {
     r \<leftarrow> strip_prefix ''struct '' s;
     let name = takeWhile (\<lambda>c. c \<noteq> CHR '' '') r;
     r \<leftarrow> strip_prefix '' { '' (dropWhile (\<lambda>c. c \<noteq> CHR '' '') r);
     let elem = takeWhile (\<lambda>c. c \<noteq> CHR '' '') r;
     r \<leftarrow> strip_prefix '' '' (dropWhile (\<lambda>c. c \<noteq> CHR '' '') r);
     let fld = takeWhile (\<lambda>c. c \<noteq> CHR ''['') r;
     r \<leftarrow> strip_prefix ''['' (dropWhile (\<lambda>c. c \<noteq> CHR ''['') r);
     let ds = takeWhile (\<lambda>c. c \<noteq> CHR '']'') r;
     r \<leftarrow> strip_prefix '']; };'' (dropWhile (\<lambda>c. c \<noteq> CHR '']'') r);
     n \<leftarrow> undec ds;
     if r = [] \<and> name \<noteq> [] \<and> elem \<noteq> [] \<and> fld \<noteq> []
     then Some (name, elem, fld, n) else None
   }"

definition parse_type_string :: "string \<Rightarrow> bview \<Rightarrow> (exn + ty) \<times> bview" where
  "parse_type_string s bv =
     (case parse_array_struct s of
        None \<Rightarrow> (Inl (HostError ''syntax error''), called (ParseTypeString s) bv)
      | Some (name, elem, fld, n) \<Rightarrow>
          (case types bv elem of
             None \<Rightarrow> (Inl (HostError ''unknown type''), called (ParseTypeString s) bv)
           | Some t \<Rightarrow> (Inr (TStruct False [(TArray (TNamed elem t) n, fld)]),
                        called (ParseTypeString s) bv)))"

section \<open>Registering the types\<close>

text \<open>The enumeration part of \<^verbatim>\<open>_ensure_types\<close>: the type of the opcode field, and
  what it leaves in the view. In the fallback \<^verbatim>\<open>u8()\<close> is called before the warning
  is logged.\<close>

definition opcode_field :: "api \<Rightarrow> bview \<Rightarrow> (exn + ty) \<times> bview" where
  "opcode_field a bv =
     (case make_enum_type_best_effort a of
        Some enum_t \<Rightarrow>
          (Inr (TNamed T_ENUM enum_t),
           log_info ''AMD_Zen_Opcode enum created (u8).'' (define_user_type T_ENUM enum_t bv))
      | None \<Rightarrow>
          (case u8 a of
             Inl e \<Rightarrow> (Inl e, bv)
           | Inr t \<Rightarrow>
               (Inr t,
                log_warn
                  ''Could not create AMD_Zen_Opcode enum on this BN build; opcode will be uint8.''
                  bv)))"

text \<open>\<^verbatim>\<open>_ensure_types(bv)\<close>. The result is the exception that escapes, if any, and the
  view as the call leaves it: what was registered before an exception stays
  registered.\<close>

definition ensure_types :: "api \<Rightarrow> bview \<Rightarrow> exn option \<times> bview" where
  "ensure_types a bv =
     (if types bv T_PATCH \<noteq> None then (None, bv)
      else
        (case opcode_field a bv of
           (Inl e, bv) \<Rightarrow> (Some e, bv)
         | (Inr opcode_field_t, bv) \<Rightarrow>
        (case build_uop a opcode_field_t of
           Inl e \<Rightarrow> (Some e, bv)
         | Inr uop_t \<Rightarrow>
        (let bv = define_user_type T_UOP uop_t bv;
             uop_named = TNamed T_UOP uop_t
         in case build_reg a uop_named of
           Inl e \<Rightarrow> (Some e, bv)
         | Inr reg_t \<Rightarrow>
        (let bv = define_user_type T_REG reg_t bv
         in case build_hdr a of
           Inl e \<Rightarrow> (Some e, bv)
         | Inr hdr_t \<Rightarrow>
        (let bv = define_user_type T_HDR hdr_t bv;
             hdr_named = TNamed T_HDR hdr_t
         in case build_rand a of
           Inl e \<Rightarrow> (Some e, bv)
         | Inr rand_t \<Rightarrow>
        (let bv = define_user_type T_RAND rand_t bv
         in case build_patch a hdr_named of
           Inl e \<Rightarrow> (Some e, bv)
         | Inr patch_t \<Rightarrow>
             (None, log_info ''AMD microcode structs defined in this database.''
                      (define_user_type T_PATCH patch_t bv)))))))))"

section \<open>Defining variables\<close>

text \<open>Python's truth value of an optional string argument: \<^verbatim>\<open>None\<close> and the empty
  string are false.\<close>

fun truthy :: "string option \<Rightarrow> bool" where
  "truthy None = False"
| "truthy (Some s) = (s \<noteq> [])"

definition safe_undef_var :: "bview \<Rightarrow> int \<Rightarrow> bview" where
  "safe_undef_var bv addr = snd (undefine_user_data_var addr bv)"

definition define_var :: "bview \<Rightarrow> int \<Rightarrow> ty \<Rightarrow> string option \<Rightarrow> string option \<Rightarrow> bview" where
  "define_var bv addr t name comment =
     (let bv = safe_undef_var bv addr;
          bv = define_user_data_var addr t bv;
          bv = (if truthy name then define_user_symbol addr (the name) bv else bv);
          bv = (if truthy comment then set_comment_at addr (the comment) bv else bv)
      in bv)"

definition short_read_msg :: "nat \<Rightarrow> int \<Rightarrow> string" where
  "short_read_msg got base =
     ''Only '' @ dec got @ '' bytes available from 0x'' @ hex_int base @ '', expected 0x''
       @ hex_int PATCH_SIZE @ ''. Layout may be partial.''"

definition check_size :: "bview \<Rightarrow> int \<Rightarrow> bview" where
  "check_size bv base =
     (case read_len bv base PATCH_SIZE of
        Inl e \<Rightarrow> bv
      | Inr got \<Rightarrow> if int got < PATCH_SIZE then log_warn (short_read_msg got base) bv else bv)"

section \<open>Region sizing\<close>

text \<open>The four assignments of \<^verbatim>\<open>apply_layout_at\<close> that size the microcode region
  (\<^verbatim>\<open>available\<close>, \<^verbatim>\<open>ucode_size\<close> twice, \<^verbatim>\<open>uops_count\<close>). Python's \<^verbatim>\<open>%\<close> and
  \<^verbatim>\<open>//\<close> round towards minus infinity, as \<open>mod\<close> and \<open>div\<close> on \<open>int\<close> do.\<close>

definition region_sizing :: "int \<Rightarrow> int \<Rightarrow> int \<times> int" where
  "region_sizing file_end reg_base =
     (let available = file_end - reg_base;
          ucode_size = min available UCREG_SIZE;
          ucode_size = ucode_size - (ucode_size mod UOP_SIZE);
          uops_count = ucode_size div UOP_SIZE
      in (ucode_size, uops_count))"

section \<open>Applying the layout\<close>

definition type_str :: "int \<Rightarrow> string" where
  "type_str uops_count =
     ''struct AMD_Zen_MicrocodeRegion_auto { '' @ T_UOP @ '' uops['' @ str_int uops_count
       @ '']; };''"

definition types_missing_msg :: string where
  "types_missing_msg = ''Types missing after definition; type creation failed on this build.''"

definition no_bytes_msg :: string where
  "no_bytes_msg = ''No bytes available for ucode region at this base.''"

definition applied_msg :: "int \<Rightarrow> int \<Rightarrow> string" where
  "applied_msg base uops_count =
     ''Applied AMD microcode layout at 0x'' @ hex_int base @ '' (uops='' @ hex_alt uops_count
       @ '').''"

text \<open>The microcode-region part of \<^verbatim>\<open>apply_layout_at\<close>, from the sizing to the final
  log line: the registered region type when the whole region is there, else a type
  parsed from a declaration written for this call. An exception of the parser is not
  caught; one of \<^verbatim>\<open>update_analysis\<close> is.\<close>

definition apply_region :: "bview \<Rightarrow> int \<Rightarrow> ty \<Rightarrow> int \<Rightarrow> int \<Rightarrow> exn option \<times> bview" where
  "apply_region bv base reg_t file_end reg_base =
     (let (ucode_size, uops_count) = region_sizing file_end reg_base
      in case (if ucode_size = UCREG_SIZE
               then (None, define_var bv reg_base reg_t (Some ''amd_ucode_region'') None)
               else (case parse_type_string (type_str uops_count) bv of
                       (Inl e, bv) \<Rightarrow> (Some e, bv)
                     | (Inr auto_t, bv) \<Rightarrow>
                         (None, define_var bv reg_base auto_t (Some ''amd_ucode_region'') None))) of
           (Some e, bv) \<Rightarrow> (Some e, bv)
         | (None, bv) \<Rightarrow>
             (None, log_info (applied_msg base uops_count) (snd (update_analysis bv))))"

text \<open>The three definitions of \<^verbatim>\<open>apply_layout_at\<close> that do not depend on the end of
  the image: the container and the header, both at \<open>base\<close>, and the random blocks.\<close>

definition define_fixed :: "bview \<Rightarrow> int \<Rightarrow> ty \<Rightarrow> ty \<Rightarrow> ty \<Rightarrow> bview" where
  "define_fixed bv base patch_t hdr_t rand_t =
     (let bv = define_var bv (base + 0x0) patch_t (Some ''amd_mc_patch'')
                 (Some ''AMD microcode patch container'');
          bv = define_var bv (base + HDR_OFF) hdr_t (Some ''amd_mc_header'') None;
          bv = define_var bv (base + RANDOM_OFF) rand_t (Some ''amd_mc_random_blocks'') None
      in bv)"

text \<open>\<^verbatim>\<open>apply_layout_at(bv, base)\<close>. The four lookups yield \<^verbatim>\<open>None\<close> for a name that
  is not registered; a type object that is found counts as true in \<^verbatim>\<open>all([...])\<close>.\<close>

definition apply_layout_at :: "api \<Rightarrow> bview \<Rightarrow> int \<Rightarrow> exn option \<times> bview" where
  "apply_layout_at a bv base =
     (case ensure_types a bv of
        (Some e, bv) \<Rightarrow> (Some e, bv)
      | (None, bv) \<Rightarrow>
          (let bv = check_size bv base
           in case (types bv T_PATCH, types bv T_HDR, types bv T_RAND, types bv T_REG) of
                (Some patch_t, Some hdr_t, Some rand_t, Some reg_t) \<Rightarrow>
                  (let bv = define_fixed bv base patch_t hdr_t rand_t;
                       file_end = bv_end bv;
                       reg_base = base + UCREG_OFF
                   in if reg_base \<ge> file_end then (None, log_warn no_bytes_msg bv)
                      else apply_region bv base reg_t file_end reg_base)
              | _ \<Rightarrow> (None, log_error types_missing_msg bv)))"

text \<open>The three commands the module registers with the host.\<close>

definition cmd_define_types :: "api \<Rightarrow> bview \<Rightarrow> exn option \<times> bview" where
  "cmd_define_types a bv = ensure_types a bv"

definition cmd_apply_at_zero :: "api \<Rightarrow> bview \<Rightarrow> exn option \<times> bview" where
  "cmd_apply_at_zero a bv = apply_layout_at a bv 0"

definition cmd_apply_at_cursor :: "api \<Rightarrow> bview \<Rightarrow> int \<Rightarrow> exn option \<times> bview" where
  "cmd_apply_at_cursor a bv addr = apply_layout_at a bv addr"

section \<open>Vocabulary of the properties\<close>

text \<open>The calls one invocation adds to the trace of the view, and the log lines it
  adds.\<close>

definition new_calls :: "bview \<Rightarrow> bview \<Rightarrow> call list" where
  "new_calls bv bv' = drop (length (calls bv)) (calls bv')"

definition new_log :: "bview \<Rightarrow> bview \<Rightarrow> (severity \<times> string) list" where
  "new_log bv bv' = drop (length (log bv)) (log bv')"

fun is_define_type :: "call \<Rightarrow> bool" where
  "is_define_type (DefineUserType n t) = True"
| "is_define_type c = False"

fun is_parse :: "call \<Rightarrow> bool" where
  "is_parse (ParseTypeString s) = True"
| "is_parse c = False"

fun is_define_var :: "call \<Rightarrow> bool" where
  "is_define_var (DefineUserDataVar addr t) = True"
| "is_define_var c = False"

text \<open>The log lines \<^verbatim>\<open>_check_size\<close> adds.\<close>

definition check_log :: "bview \<Rightarrow> int \<Rightarrow> (severity \<times> string) list" where
  "check_log bv base =
     (case read_len bv base PATCH_SIZE of
        Inl e \<Rightarrow> []
      | Inr got \<Rightarrow> if int got < PATCH_SIZE then [(Warn, short_read_msg got base)] else [])"

text \<open>What the microcode-region part of \<^verbatim>\<open>apply_layout_at\<close> returns when bytes
  are available, written out branch by branch: the registered type, the parsed type,
  or the exception of the parser when the record type is not registered.\<close>

definition region_result :: "bview \<Rightarrow> int \<Rightarrow> ty \<Rightarrow> ty option \<Rightarrow> exn option \<times> bview" where
  "region_result bvf base g uop =
     (let rb = base + UCREG_OFF; n = snd (region_sizing (bv_end bvf) rb)
      in if fst (region_sizing (bv_end bvf) rb) = UCREG_SIZE
         then (None, log_info (applied_msg base n)
                 (called UpdateAnalysis (define_var bvf rb g (Some ''amd_ucode_region'') None)))
         else (case uop of
                 None \<Rightarrow>
                   (Some (HostError ''unknown type''), called (ParseTypeString (type_str n)) bvf)
               | Some u \<Rightarrow>
                   (None, log_info (applied_msg base n)
                      (called UpdateAnalysis
                         (define_var (called (ParseTypeString (type_str n)) bvf) rb
                            (TStruct False [(TArray (TNamed T_UOP u) (nat n), ''uops'')])
                            (Some ''amd_ucode_region'') None)))))"

text \<open>The names registered by the \<^verbatim>\<open>define_user_type\<close> calls of a trace, in order.\<close>

fun defined_names :: "call list \<Rightarrow> string list" where
  "defined_names [] = []"
| "defined_names (DefineUserType n t # cs) = n # defined_names cs"
| "defined_names (c # cs) = defined_names cs"


text \<open>Registration succeeded, in the sense of \<^verbatim>\<open>apply_layout_at\<close> itself:
  \<^verbatim>\<open>_ensure_types\<close> returned and the four lookups that follow it all found a type.\<close>

definition registration_ok :: "api \<Rightarrow> bview \<Rightarrow> bool" where
  "registration_ok a bv =
     (case ensure_types a bv of
        (Some e, bv') \<Rightarrow> False
      | (None, bv') \<Rightarrow>
          types bv' T_PATCH \<noteq> None \<and> types bv' T_HDR \<noteq> None \<and> types bv' T_RAND \<noteq> None
            \<and> types bv' T_REG \<noteq> None)"

text \<open>The two capabilities the module needs of every host: an unsigned integer type
  of each width it asks for, and a structure type from a builder.\<close>

definition ints_ok :: "api \<Rightarrow> bool" where
  "ints_ok a = (\<forall>w \<in> {1, 2, 4}. uint a w = Inr (TInt w False))"

definition structs_ok :: "api \<Rightarrow> bool" where
  "structs_ok a = (\<forall>sb. type_structure a sb = Inr (struct_of sb))"

text \<open>\<^verbatim>\<open>_ensure_types(bv)\<close> called \<open>n\<close> times in a row on the same view; an exception
  ends the sequence.\<close>

fun ensure_types_n :: "api \<Rightarrow> nat \<Rightarrow> bview \<Rightarrow> exn option \<times> bview" where
  "ensure_types_n a 0 bv = (None, bv)"
| "ensure_types_n a (Suc n) bv =
     (case ensure_types a bv of
        (Some e, bv') \<Rightarrow> (Some e, bv')
      | (None, bv') \<Rightarrow> ensure_types_n a n bv')"

text \<open>Hosts and a family of views for concrete runs: a build on which every call
  works; one that has neither \<^verbatim>\<open>Type.structure\<close> nor \<^verbatim>\<open>Type.structure_type\<close>; one
  that cannot build enumerations; one whose enumeration builder rejects the assignment
  \<^verbatim>\<open>eb.width = 1\<close> and keeps its four-byte default; an empty view whose image is
  \<open>[0, e)\<close>.\<close>

definition api_full :: api where
  "api_full =
     \<lparr>Type_int = (\<lambda>c. None), Type_structure = Some (\<lambda>sb. None),
      Type_structure_type = None, EnumerationBuilder_create = None,
      EnumerationBuilder_init = None, eb_default_width = 4, eb_default_signed = False,
      eb_set_width = None, eb_set_signed = Some None, eb_append = (\<lambda>k v. None),
      Type_enumeration = Some None, Type_enumeration_type = None\<rparr>"

definition api_no_struct :: api where
  "api_no_struct = api_full\<lparr>Type_structure := None\<rparr>"



definition bv_fresh :: "int \<Rightarrow> bview" where
  "bv_fresh e =
     \<lparr>types = Map.empty, data_vars = Map.empty, symbols = Map.empty, comments = Map.empty,
      bv_end = e, read_len = (\<lambda>addr n. Inr (nat (max 0 (min n (e - addr))))),
      undefine_fails = (\<lambda>m addr. None), update_analysis_fails = None, log = [], calls = []\<rparr>"

section \<open>Region sizing: the usable prefix\<close>

lemma region_sizing_eq:
  "region_sizing file_end reg_base =
     (4 * (min (file_end - reg_base) 0x3500 div 4), min (file_end - reg_base) 0x3500 div 4)"
  by (simp add: region_sizing_def Let_def UCREG_SIZE_def UOP_SIZE_def minus_mod_eq_mult_div)

lemma floor4_props:
  fixes m :: int
  assumes "0 < m"
  shows "(4 * (m div 4)) mod 4 = 0" "0 \<le> 4 * (m div 4)" "4 * (m div 4) \<le> m"
    "m < 4 * (m div 4) + 4" "\<forall>k. 4 * k \<le> m \<longrightarrow> 4 * k \<le> 4 * (m div 4)"
    "(4 * (m div 4)) div 4 = m div 4" "(m div 4) * 4 = 4 * (m div 4)"
  using assms by (simp_all, presburger+)

section \<open>What each step changes\<close>

lemma called_fields [simp]:
  "types (called c bv) = types bv" "data_vars (called c bv) = data_vars bv"
  "symbols (called c bv) = symbols bv" "comments (called c bv) = comments bv"
  "bv_end (called c bv) = bv_end bv" "read_len (called c bv) = read_len bv"
  "undefine_fails (called c bv) = undefine_fails bv"
  "update_analysis_fails (called c bv) = update_analysis_fails bv"
  "log (called c bv) = log bv" "calls (called c bv) = calls bv @ [c]"
  by (simp_all add: called_def)

lemma log_info_fields [simp]:
  "types (log_info m bv) = types bv" "data_vars (log_info m bv) = data_vars bv"
  "symbols (log_info m bv) = symbols bv" "comments (log_info m bv) = comments bv"
  "bv_end (log_info m bv) = bv_end bv" "read_len (log_info m bv) = read_len bv"
  "undefine_fails (log_info m bv) = undefine_fails bv"
  "update_analysis_fails (log_info m bv) = update_analysis_fails bv"
  "log (log_info m bv) = log bv @ [(Info, m)]" "calls (log_info m bv) = calls bv"
  by (simp_all add: log_info_def)

lemma log_warn_fields [simp]:
  "types (log_warn m bv) = types bv" "data_vars (log_warn m bv) = data_vars bv"
  "symbols (log_warn m bv) = symbols bv" "comments (log_warn m bv) = comments bv"
  "bv_end (log_warn m bv) = bv_end bv" "read_len (log_warn m bv) = read_len bv"
  "undefine_fails (log_warn m bv) = undefine_fails bv"
  "update_analysis_fails (log_warn m bv) = update_analysis_fails bv"
  "log (log_warn m bv) = log bv @ [(Warn, m)]" "calls (log_warn m bv) = calls bv"
  by (simp_all add: log_warn_def)

lemma log_error_fields [simp]:
  "types (log_error m bv) = types bv" "data_vars (log_error m bv) = data_vars bv"
  "symbols (log_error m bv) = symbols bv" "comments (log_error m bv) = comments bv"
  "bv_end (log_error m bv) = bv_end bv" "read_len (log_error m bv) = read_len bv"
  "undefine_fails (log_error m bv) = undefine_fails bv"
  "update_analysis_fails (log_error m bv) = update_analysis_fails bv"
  "log (log_error m bv) = log bv @ [(Error, m)]" "calls (log_error m bv) = calls bv"
  by (simp_all add: log_error_def)

lemma define_user_type_fields [simp]:
  "types (define_user_type n t bv) = (types bv)(n \<mapsto> t)"
  "data_vars (define_user_type n t bv) = data_vars bv"
  "symbols (define_user_type n t bv) = symbols bv"
  "comments (define_user_type n t bv) = comments bv"
  "bv_end (define_user_type n t bv) = bv_end bv"
  "read_len (define_user_type n t bv) = read_len bv"
  "undefine_fails (define_user_type n t bv) = undefine_fails bv"
  "update_analysis_fails (define_user_type n t bv) = update_analysis_fails bv"
  "log (define_user_type n t bv) = log bv"
  "calls (define_user_type n t bv) = calls bv @ [DefineUserType n t]"
  by (simp_all add: define_user_type_def)

lemma define_var_fields [simp]:
  "types (define_var bv addr t n c) = types bv"
  "data_vars (define_var bv addr t n c) = (data_vars bv)(addr \<mapsto> t)"
  "symbols (define_var bv addr t n c) =
     (if truthy n then (symbols bv)(addr \<mapsto> the n) else symbols bv)"
  "comments (define_var bv addr t n c) =
     (if truthy c then (comments bv)(addr \<mapsto> the c) else comments bv)"
  "bv_end (define_var bv addr t n c) = bv_end bv"
  "read_len (define_var bv addr t n c) = read_len bv"
  "undefine_fails (define_var bv addr t n c) = undefine_fails bv"
  "update_analysis_fails (define_var bv addr t n c) = update_analysis_fails bv"
  "log (define_var bv addr t n c) = log bv"
  "calls (define_var bv addr t n c) =
     calls bv @ [UndefineUserDataVar addr, DefineUserDataVar addr t]
       @ (if truthy n then [DefineUserSymbol addr (the n)] else [])
       @ (if truthy c then [SetCommentAt addr (the c)] else [])"
  by (simp_all add: define_var_def safe_undef_var_def undefine_user_data_var_def
      define_user_data_var_def define_user_symbol_def set_comment_at_def Let_def
      split: option.splits)

lemma check_size_fields [simp]:
  "types (check_size bv base) = types bv" "data_vars (check_size bv base) = data_vars bv"
  "symbols (check_size bv base) = symbols bv" "comments (check_size bv base) = comments bv"
  "bv_end (check_size bv base) = bv_end bv" "read_len (check_size bv base) = read_len bv"
  "undefine_fails (check_size bv base) = undefine_fails bv"
  "update_analysis_fails (check_size bv base) = update_analysis_fails bv"
  "calls (check_size bv base) = calls bv"
  by (simp_all add: check_size_def split: sum.splits)

lemma check_size_log [simp]: "log (check_size bv base) = log bv @ check_log bv base"
  by (simp add: check_size_def check_log_def split: sum.splits)

lemma check_log_no_error: "x \<in> set (check_log bv base) \<Longrightarrow> fst x = Warn"
  by (auto simp: check_log_def split: sum.splits if_splits)

lemma opcode_field_fields [simp]:
  "data_vars (snd (opcode_field a bv)) = data_vars bv"
  "symbols (snd (opcode_field a bv)) = symbols bv"
  "comments (snd (opcode_field a bv)) = comments bv"
  "bv_end (snd (opcode_field a bv)) = bv_end bv"
  "read_len (snd (opcode_field a bv)) = read_len bv"
  "undefine_fails (snd (opcode_field a bv)) = undefine_fails bv"
  "update_analysis_fails (snd (opcode_field a bv)) = update_analysis_fails bv"
  by (simp_all add: opcode_field_def split: option.splits sum.splits)

lemma ensure_types_fields [simp]:
  "data_vars (snd (ensure_types a bv)) = data_vars bv"
  "symbols (snd (ensure_types a bv)) = symbols bv"
  "comments (snd (ensure_types a bv)) = comments bv"
  "bv_end (snd (ensure_types a bv)) = bv_end bv"
  "read_len (snd (ensure_types a bv)) = read_len bv"
  "undefine_fails (snd (ensure_types a bv)) = undefine_fails bv"
  "update_analysis_fails (snd (ensure_types a bv)) = update_analysis_fails bv"
  by (simp_all add: ensure_types_def Let_def opcode_field_def split: option.splits sum.splits prod.splits)

lemmas names = T_PATCH_def T_HDR_def T_RAND_def T_REG_def T_UOP_def T_ENUM_def

lemma ensure_types_noop: "types bv T_PATCH \<noteq> None \<Longrightarrow> ensure_types a bv = (None, bv)"
  by (simp add: ensure_types_def)

lemma ensure_types_patch:
  "fst (ensure_types a bv) = None \<Longrightarrow> types (snd (ensure_types a bv)) T_PATCH \<noteq> None"
  by (auto simp: ensure_types_def Let_def split: option.splits sum.splits prod.splits if_splits)

lemma ensure_types_fail_patch:
  "types bv T_PATCH = None \<Longrightarrow> fst (ensure_types a bv) = Some e \<Longrightarrow>
     types (snd (ensure_types a bv)) T_PATCH = None"
  by (auto simp: ensure_types_def opcode_field_def Let_def names
      split: option.splits sum.splits prod.splits if_splits)

lemma ensure_types_calls:
  "\<exists>cs. calls (snd (ensure_types a bv)) = calls bv @ cs \<and> list_all is_define_type cs"
  by (auto simp: ensure_types_def opcode_field_def Let_def
      split: option.splits sum.splits prod.splits if_splits)

lemma ensure_types_log:
  "\<exists>l. log (snd (ensure_types a bv)) = log bv @ l \<and> (\<forall>x \<in> set l. fst x \<noteq> Error)"
  by (auto simp: ensure_types_def opcode_field_def Let_def
      split: option.splits sum.splits prod.splits if_splits)


section \<open>The declaration text and its parse\<close>

declare dec.simps [simp del] hex.simps [simp del]

lemma digit_cases: "d < 10 \<Longrightarrow> d = 0 \<or> d = 1 \<or> d = 2 \<or> d = 3 \<or> d = 4 \<or> d = 5 \<or> d = 6 \<or> d = 7 \<or> d = 8 \<or> d = (9::nat)"
  by arith

lemma digit_char_is_digit: "d < 10 \<Longrightarrow> is_digit (digit_char d)"
  using digit_cases[of d] by (auto simp: is_digit_def digit_char_def)

lemma digit_val_char: "d < 10 \<Longrightarrow> digit_val (digit_char d) = d"
  using digit_cases[of d] by (auto simp: digit_val_def digit_char_def)

lemma dec_digits: "c \<in> set (dec n) \<Longrightarrow> is_digit c"
proof (induction n arbitrary: c rule: dec.induct)
  case (1 n)
  show ?case
  proof (cases "n < 10")
    case True
    then show ?thesis using "1.prems" by (simp add: dec.simps[of n] digit_char_is_digit)
  next
    case False
    then show ?thesis using "1.prems" "1.IH"
      by (auto simp: dec.simps[of n] digit_char_is_digit)
  qed
qed

lemma dec_nonempty: "dec n \<noteq> []"
  by (simp add: dec.simps[of n])

lemma undec_acc_digits:
  "(\<And>c. c \<in> set cs \<Longrightarrow> is_digit c) \<Longrightarrow>
     undec_acc acc (cs @ rest) = undec_acc (foldl (\<lambda>a c. 10 * a + digit_val c) acc cs) rest"
  by (induction cs arbitrary: acc) auto

lemma foldl_dec: "foldl (\<lambda>a c. 10 * a + digit_val c) 0 (dec n) = n"
proof (induction n rule: dec.induct)
  case (1 n)
  show ?case
  proof (cases "n < 10")
    case True
    then show ?thesis by (simp add: dec.simps[of n] digit_val_char)
  next
    case False
    then show ?thesis using "1.IH" by (simp add: dec.simps[of n] digit_val_char)
  qed
qed

lemma undec_dec: "undec (dec n) = Some n"
  using undec_acc_digits[of "dec n" 0 "[]"] dec_digits[of _ n]
  by (simp add: undec_def dec_nonempty foldl_dec)

lemma is_digit_not_bracket: "is_digit c \<Longrightarrow> c \<noteq> CHR '']''"
  by (auto simp: is_digit_def)

lemma takeWhile_dec: "takeWhile (\<lambda>c. c \<noteq> CHR '']'') (dec n @ CHR '']'' # rest) = dec n"
  using dec_digits[of _ n] is_digit_not_bracket by (subst takeWhile_append2) auto

lemma dropWhile_dec: "dropWhile (\<lambda>c. c \<noteq> CHR '']'') (dec n @ CHR '']'' # rest) = CHR '']'' # rest"
  using dec_digits[of _ n] is_digit_not_bracket by (subst dropWhile_append2) auto

lemma parse_type_str:
  "0 \<le> n \<Longrightarrow>
     parse_array_struct (type_str n) = Some (''AMD_Zen_MicrocodeRegion_auto'', T_UOP, ''uops'', nat n)"
  by (simp add: parse_array_struct_def type_str_def T_UOP_def str_int_def takeWhile_dec
      dropWhile_dec undec_dec)

section \<open>The branches of the application\<close>

lemma define_fixed_fields [simp]:
  "types (define_fixed bv base p h r) = types bv"
  "bv_end (define_fixed bv base p h r) = bv_end bv"
  "read_len (define_fixed bv base p h r) = read_len bv"
  "undefine_fails (define_fixed bv base p h r) = undefine_fails bv"
  "update_analysis_fails (define_fixed bv base p h r) = update_analysis_fails bv"
  "log (define_fixed bv base p h r) = log bv"
  "data_vars (define_fixed bv base p h r) = (data_vars bv)(base \<mapsto> h, base + 0x20 \<mapsto> r)"
  "symbols (define_fixed bv base p h r) =
     (symbols bv)(base \<mapsto> ''amd_mc_header'', base + 0x20 \<mapsto> ''amd_mc_random_blocks'')"
  "comments (define_fixed bv base p h r) =
     (comments bv)(base \<mapsto> ''AMD microcode patch container'')"
  "calls (define_fixed bv base p h r) =
     calls bv @
       [UndefineUserDataVar base, DefineUserDataVar base p,
        DefineUserSymbol base ''amd_mc_patch'',
        SetCommentAt base ''AMD microcode patch container'',
        UndefineUserDataVar base, DefineUserDataVar base h,
        DefineUserSymbol base ''amd_mc_header'',
        UndefineUserDataVar (base + 0x20), DefineUserDataVar (base + 0x20) r,
        DefineUserSymbol (base + 0x20) ''amd_mc_random_blocks'']"
  by (simp_all add: define_fixed_def Let_def HDR_OFF_def RANDOM_OFF_def)

lemma update_analysis_snd [simp]: "snd (update_analysis bv) = called UpdateAnalysis bv"
  by (simp add: update_analysis_def)

lemma apply_region_full:
  assumes "fst (region_sizing fe rb) = UCREG_SIZE"
  shows "apply_region bv base g fe rb =
     (None, log_info (applied_msg base (snd (region_sizing fe rb)))
        (called UpdateAnalysis (define_var bv rb g (Some ''amd_ucode_region'') None)))"
proof -
  obtain u n where rs: "region_sizing fe rb = (u, n)" by (cases "region_sizing fe rb")
  with assms show ?thesis by (simp add: apply_region_def)
qed

lemma apply_region_auto:
  assumes "fst (region_sizing fe rb) \<noteq> UCREG_SIZE" "0 \<le> snd (region_sizing fe rb)"
    "types bv T_UOP = Some u"
  shows "apply_region bv base g fe rb =
     (None, log_info (applied_msg base (snd (region_sizing fe rb)))
        (called UpdateAnalysis
           (define_var (called (ParseTypeString (type_str (snd (region_sizing fe rb)))) bv) rb
              (TStruct False [(TArray (TNamed T_UOP u) (nat (snd (region_sizing fe rb))), ''uops'')])
              (Some ''amd_ucode_region'') None)))"
proof -
  obtain u n where rs: "region_sizing fe rb = (u, n)" by (cases "region_sizing fe rb")
  with assms show ?thesis by (simp add: apply_region_def parse_type_string_def parse_type_str)
qed

lemma apply_region_auto_fail:
  assumes "fst (region_sizing fe rb) \<noteq> UCREG_SIZE" "0 \<le> snd (region_sizing fe rb)"
    "types bv T_UOP = None"
  shows "apply_region bv base g fe rb =
     (Some (HostError ''unknown type''),
      called (ParseTypeString (type_str (snd (region_sizing fe rb)))) bv)"
proof -
  obtain u n where rs: "region_sizing fe rb = (u, n)" by (cases "region_sizing fe rb")
  with assms show ?thesis by (simp add: apply_region_def parse_type_string_def parse_type_str)
qed

lemma apply_raise:
  "fst (ensure_types a bv) = Some e \<Longrightarrow>
     apply_layout_at a bv base = (Some e, snd (ensure_types a bv))"
  by (cases "ensure_types a bv") (simp add: apply_layout_at_def)

lemma apply_found:
  assumes "fst (ensure_types a bv) = None"
    "types (snd (ensure_types a bv)) T_PATCH = Some p"
    "types (snd (ensure_types a bv)) T_HDR = Some h"
    "types (snd (ensure_types a bv)) T_RAND = Some r"
    "types (snd (ensure_types a bv)) T_REG = Some g"
  shows "apply_layout_at a bv base =
     (if base + UCREG_OFF \<ge> bv_end bv
      then (None, log_warn no_bytes_msg
              (define_fixed (check_size (snd (ensure_types a bv)) base) base p h r))
      else apply_region (define_fixed (check_size (snd (ensure_types a bv)) base) base p h r)
             base g (bv_end bv) (base + UCREG_OFF))"
proof -
  obtain x b where e: "ensure_types a bv = (x, b)" by (cases "ensure_types a bv")
  have be: "bv_end b = bv_end bv" using ensure_types_fields(4)[of a bv] e by simp
  show ?thesis using assms e be by (simp add: apply_layout_at_def Let_def)
qed

lemma apply_missing:
  assumes "fst (ensure_types a bv) = None"
    "types (snd (ensure_types a bv)) T_PATCH = None \<or> types (snd (ensure_types a bv)) T_HDR = None
      \<or> types (snd (ensure_types a bv)) T_RAND = None \<or> types (snd (ensure_types a bv)) T_REG = None"
  shows "apply_layout_at a bv base =
     (None, log_error types_missing_msg (check_size (snd (ensure_types a bv)) base))"
  using assms
  by (cases "ensure_types a bv") (auto simp add: apply_layout_at_def Let_def split: option.splits)

lemma registration_ok_iff:
  "registration_ok a bv \<longleftrightarrow>
     fst (ensure_types a bv) = None \<and>
     (\<exists>p h r g. types (snd (ensure_types a bv)) T_PATCH = Some p
        \<and> types (snd (ensure_types a bv)) T_HDR = Some h
        \<and> types (snd (ensure_types a bv)) T_RAND = Some r
        \<and> types (snd (ensure_types a bv)) T_REG = Some g)"
  by (auto simp: registration_ok_def split: prod.splits option.splits)

lemma define_type_not_var: "list_all is_define_type cs \<Longrightarrow> filter is_define_var cs = []"
  by (induction cs) (auto elim: is_define_type.elims)

lemma define_type_not_parse: "list_all is_define_type cs \<Longrightarrow> filter is_parse cs = []"
  by (induction cs) (auto elim: is_define_type.elims)

lemma define_type_not_analysis: "list_all is_define_type cs \<Longrightarrow> UpdateAnalysis \<notin> set cs"
  by (induction cs) auto

section \<open>A host that can build every type\<close>

lemma ints_okD:
  assumes "ints_ok a"
  shows "uint a 1 = Inr (TInt 1 False)" "uint a 2 = Inr (TInt 2 False)"
    "uint a 4 = Inr (TInt 4 False)" "u8 a = Inr (TInt 1 False)"
    "uint a (Suc 0) = Inr (TInt (Suc 0) False)"
  using assms by (simp_all add: ints_ok_def u8_def)

lemma structs_okD: "structs_ok a \<Longrightarrow> type_structure a sb = Inr (struct_of sb)"
  by (simp add: structs_ok_def)

lemma capable_builds:
  assumes "ints_ok a" "structs_ok a"
  shows "build_uop a t =
      Inr (TStruct True [(t, ''opcode''), (TInt 1 False, ''b1''), (TInt 2 False, ''imm16'')])"
    "build_reg a u = Inr (TStruct True [(TArray u 0xD40, ''uops'')])"
    "build_hdr a = Inr (TStruct True (map (\<lambda>(w, n). (TInt w False, n)) hdr_fields))"
    "build_rand a =
      Inr (TStruct True [(TArray (TInt 1 False) 0x100, ''block1''),
             (TArray (TInt 1 False) 0x100, ''block2''), (TArray (TInt 1 False) 0x100, ''block3'')])"
    "build_patch a h = Inr (TStruct True [(h, ''hdr''), (TArray (TInt 1 False) 0x3800, ''body'')])"
  by (simp_all add: build_uop_def build_reg_def build_hdr_def build_rand_def build_patch_def
      hdr_fields_def ints_okD[OF assms(1)] structs_okD[OF assms(2)] struct_of_def sb_append_def
      packed_builder_def StructureBuilder_create_def UOP_COUNT_def UCREG_SIZE_def UOP_SIZE_def)

lemma capable_registration:
  assumes "ints_ok a" "structs_ok a" "types bv T_PATCH = None"
  shows "registration_ok a bv"
  using assms(3)
  by (simp add: registration_ok_def ensure_types_def opcode_field_def Let_def
      capable_builds[OF assms(1,2)] ints_okD[OF assms(1)] names split: option.splits)

lemma api_full_ints: "ints_ok api_full"
  by (simp add: ints_ok_def api_full_def uint_def)

lemma api_full_structs: "structs_ok api_full"
  by (simp add: structs_ok_def api_full_def type_structure_def)

lemma bv_fresh_fields [simp]:
  "types (bv_fresh e) = Map.empty" "data_vars (bv_fresh e) = Map.empty"
  "symbols (bv_fresh e) = Map.empty" "comments (bv_fresh e) = Map.empty"
  "bv_end (bv_fresh e) = e" "log (bv_fresh e) = []" "calls (bv_fresh e) = []"
  "update_analysis_fails (bv_fresh e) = None"
  by (simp_all add: bv_fresh_def)

section \<open>A base at the end of the image\<close>

text \<open>Claim C4. When registration succeeded and the start of the microcode region,
  \<open>base + 0x320\<close>, is at or beyond the end of the image, \<^verbatim>\<open>apply_layout_at\<close> returns
  normally; the variables it defines are exactly the container and the header at
  \<open>base\<close> and the random blocks at \<open>base + 0x20\<close>; nothing is defined or labelled at
  \<open>base + 0x320\<close>; and the last log line is the warning \<open>no_bytes_msg\<close>, in a call that
  logs no error.\<close>

theorem apply_no_bytes:
  assumes "registration_ok a bv" "bv_end bv \<le> base + 0x320"
  shows "\<exists>patch_t hdr_t rand_t.
     types (snd (ensure_types a bv)) T_PATCH = Some patch_t
     \<and> types (snd (ensure_types a bv)) T_HDR = Some hdr_t
     \<and> types (snd (ensure_types a bv)) T_RAND = Some rand_t
     \<and> fst (apply_layout_at a bv base) = None
     \<and> filter is_define_var (new_calls bv (snd (apply_layout_at a bv base))) =
         [DefineUserDataVar base patch_t, DefineUserDataVar base hdr_t,
          DefineUserDataVar (base + 0x20) rand_t]
     \<and> data_vars (snd (apply_layout_at a bv base)) =
         (data_vars bv)(base \<mapsto> hdr_t, base + 0x20 \<mapsto> rand_t)
     \<and> data_vars (snd (apply_layout_at a bv base)) (base + 0x320) = data_vars bv (base + 0x320)
     \<and> symbols (snd (apply_layout_at a bv base)) (base + 0x320) = symbols bv (base + 0x320)
     \<and> last (log (snd (apply_layout_at a bv base))) = (Warn, no_bytes_msg)
     \<and> list_all (\<lambda>x. fst x \<noteq> Error) (new_log bv (snd (apply_layout_at a bv base)))"
proof -
  let ?bv0 = "snd (ensure_types a bv)"
  from assms(1) obtain p h r g where ok: "fst (ensure_types a bv) = None"
    and t: "types ?bv0 T_PATCH = Some p" "types ?bv0 T_HDR = Some h"
      "types ?bv0 T_RAND = Some r" "types ?bv0 T_REG = Some g"
    by (auto simp: registration_ok_iff)
  obtain cs where cs: "calls ?bv0 = calls bv @ cs" "list_all is_define_type cs"
    using ensure_types_calls by blast
  obtain l where l: "log ?bv0 = log bv @ l" "\<forall>x \<in> set l. fst x \<noteq> Error"
    using ensure_types_log by blast
  have ap: "apply_layout_at a bv base =
      (None, log_warn no_bytes_msg (define_fixed (check_size ?bv0 base) base p h r))"
    using apply_found[OF ok t, of base] assms(2) by (simp add: UCREG_OFF_def)
  have chk: "list_all (\<lambda>x. fst x \<noteq> Error) (check_log ?bv0 base)"
    using check_log_no_error[of _ ?bv0 base] by (auto simp: list_all_iff)
  show ?thesis
    using t cs l chk
    by (auto simp: ap new_calls_def new_log_def define_type_not_var list_all_iff)
qed

theorem apply_no_bytes_witness:
  "registration_ok api_full (bv_fresh 0x100) \<and> bv_end (bv_fresh 0x100) \<le> 0 + 0x320
   \<and> fst (apply_layout_at api_full (bv_fresh 0x100) 0) = None
   \<and> data_vars (snd (apply_layout_at api_full (bv_fresh 0x100) 0)) 0x320 = None
   \<and> last (log (snd (apply_layout_at api_full (bv_fresh 0x100) 0))) = (Warn, no_bytes_msg)"
proof -
  have h1: "registration_ok api_full (bv_fresh 0x100)"
    by (rule capable_registration[OF api_full_ints api_full_structs]) simp
  have h2: "bv_end (bv_fresh 0x100) \<le> 0 + 0x320" by simp
  show ?thesis
    using h1 h2 apply_no_bytes[OF h1 h2] by auto
qed

section \<open>The region step\<close>

lemma sizing_nonneg: "file_end - reg_base > 0 \<Longrightarrow> 0 \<le> snd (region_sizing file_end reg_base)"
  by (simp add: region_sizing_eq)

lemma sizing_small:
  "file_end - reg_base \<in> {1, 2, 3} \<Longrightarrow> region_sizing file_end reg_base = (0, 0)"
  by (auto simp: region_sizing_eq)

lemma apply_region_result:
  assumes "0 < bv_end bvf - (base + UCREG_OFF)"
  shows "apply_region bvf base g (bv_end bvf) (base + UCREG_OFF) =
     region_result bvf base g (types bvf T_UOP)"
proof -
  have n: "0 \<le> snd (region_sizing (bv_end bvf) (base + UCREG_OFF))"
    using assms by (rule sizing_nonneg)
  show ?thesis
  proof (cases "fst (region_sizing (bv_end bvf) (base + UCREG_OFF)) = UCREG_SIZE")
    case True
    then show ?thesis by (simp add: region_result_def Let_def apply_region_full)
  next
    case False
    then show ?thesis
      using n by (cases "types bvf T_UOP")
        (simp_all add: region_result_def Let_def apply_region_auto apply_region_auto_fail)
  qed
qed

lemma apply_positive:
  assumes "fst (ensure_types a bv) = None"
    "types (snd (ensure_types a bv)) T_PATCH = Some p"
    "types (snd (ensure_types a bv)) T_HDR = Some h"
    "types (snd (ensure_types a bv)) T_RAND = Some r"
    "types (snd (ensure_types a bv)) T_REG = Some g"
    "0 < bv_end bv - (base + UCREG_OFF)"
  shows "apply_layout_at a bv base =
     region_result (define_fixed (check_size (snd (ensure_types a bv)) base) base p h r) base g
       (types (snd (ensure_types a bv)) T_UOP)"
proof -
  let ?bvf = "define_fixed (check_size (snd (ensure_types a bv)) base) base p h r"
  have "apply_layout_at a bv base = apply_region ?bvf base g (bv_end ?bvf) (base + UCREG_OFF)"
    using apply_found[OF assms(1-5), of base] assms(6) by simp
  also have "\<dots> = region_result ?bvf base g (types ?bvf T_UOP)"
    using assms(6) by (intro apply_region_result) simp
  finally show ?thesis by simp
qed

lemma region_result_fields [simp]:
  "types (snd (region_result bvf base g uop)) = types bvf"
  "bv_end (snd (region_result bvf base g uop)) = bv_end bvf"
  "read_len (snd (region_result bvf base g uop)) = read_len bvf"
  "undefine_fails (snd (region_result bvf base g uop)) = undefine_fails bvf"
  "update_analysis_fails (snd (region_result bvf base g uop)) = update_analysis_fails bvf"
  by (simp_all add: region_result_def Let_def split: option.splits)

lemma sizing_le: "fst (region_sizing file_end reg_base) \<le> 0x3500"
  by (simp add: region_sizing_eq)

lemma region_result_fst:
  "fst (region_result bvf base g uop) =
     (if fst (region_sizing (bv_end bvf) (base + UCREG_OFF)) = UCREG_SIZE then None
      else case uop of None \<Rightarrow> Some (HostError ''unknown type'') | Some u \<Rightarrow> None)"
  by (simp add: region_result_def Let_def split: option.splits)

lemma region_result_data_vars:
  "data_vars (snd (region_result bvf base g uop)) =
     (if fst (region_sizing (bv_end bvf) (base + UCREG_OFF)) = UCREG_SIZE
      then (data_vars bvf)(base + UCREG_OFF \<mapsto> g)
      else case uop of
             None \<Rightarrow> data_vars bvf
           | Some u \<Rightarrow>
               (data_vars bvf)(base + UCREG_OFF \<mapsto>
                  TStruct False
                    [(TArray (TNamed T_UOP u)
                        (nat (snd (region_sizing (bv_end bvf) (base + UCREG_OFF)))), ''uops'')]))"
  by (simp add: region_result_def Let_def split: option.splits)


lemma region_result_comments [simp]:
  "comments (snd (region_result bvf base g uop)) = comments bvf"
  by (simp add: region_result_def Let_def split: option.splits)

lemma region_result_calls:
  "calls (snd (region_result bvf base g uop)) =
     calls bvf @
     (if fst (region_sizing (bv_end bvf) (base + UCREG_OFF)) = UCREG_SIZE
      then [UndefineUserDataVar (base + UCREG_OFF), DefineUserDataVar (base + UCREG_OFF) g,
            DefineUserSymbol (base + UCREG_OFF) ''amd_ucode_region'', UpdateAnalysis]
      else ParseTypeString (type_str (snd (region_sizing (bv_end bvf) (base + UCREG_OFF)))) #
           (case uop of
              None \<Rightarrow> []
            | Some u \<Rightarrow>
                [UndefineUserDataVar (base + UCREG_OFF),
                 DefineUserDataVar (base + UCREG_OFF)
                   (TStruct False
                      [(TArray (TNamed T_UOP u)
                          (nat (snd (region_sizing (bv_end bvf) (base + UCREG_OFF)))), ''uops'')]),
                 DefineUserSymbol (base + UCREG_OFF) ''amd_ucode_region'', UpdateAnalysis]))"
  by (simp add: region_result_def Let_def split: option.splits)

lemma region_result_log:
  "log (snd (region_result bvf base g uop)) =
     log bvf @
     (if fst (region_sizing (bv_end bvf) (base + UCREG_OFF)) = UCREG_SIZE \<or> uop \<noteq> None
      then [(Info, applied_msg base (snd (region_sizing (bv_end bvf) (base + UCREG_OFF))))]
      else [])"
  by (auto simp add: region_result_def Let_def split: option.splits)

lemma apply_shape:
  obtains
    (raise) e where "fst (ensure_types a bv) = Some e"
      "apply_layout_at a bv base = (Some e, snd (ensure_types a bv))"
  | (missing) "fst (ensure_types a bv) = None" "\<not> registration_ok a bv"
      "apply_layout_at a bv base =
         (None, log_error types_missing_msg (check_size (snd (ensure_types a bv)) base))"
  | (nobytes) p h r g where "fst (ensure_types a bv) = None"
      "types (snd (ensure_types a bv)) T_PATCH = Some p"
      "types (snd (ensure_types a bv)) T_HDR = Some h"
      "types (snd (ensure_types a bv)) T_RAND = Some r"
      "types (snd (ensure_types a bv)) T_REG = Some g"
      "bv_end bv \<le> base + UCREG_OFF"
      "apply_layout_at a bv base =
         (None, log_warn no_bytes_msg
            (define_fixed (check_size (snd (ensure_types a bv)) base) base p h r))"
  | (region) p h r g where "fst (ensure_types a bv) = None"
      "types (snd (ensure_types a bv)) T_PATCH = Some p"
      "types (snd (ensure_types a bv)) T_HDR = Some h"
      "types (snd (ensure_types a bv)) T_RAND = Some r"
      "types (snd (ensure_types a bv)) T_REG = Some g"
      "0 < bv_end bv - (base + UCREG_OFF)"
      "apply_layout_at a bv base =
         region_result (define_fixed (check_size (snd (ensure_types a bv)) base) base p h r)
           base g (types (snd (ensure_types a bv)) T_UOP)"
proof (cases "fst (ensure_types a bv)")
  case (Some e)
  then show ?thesis using raise apply_raise by blast
next
  case None
  show ?thesis
  proof (cases "registration_ok a bv")
    case False
    with None have "types (snd (ensure_types a bv)) T_PATCH = None
        \<or> types (snd (ensure_types a bv)) T_HDR = None
        \<or> types (snd (ensure_types a bv)) T_RAND = None
        \<or> types (snd (ensure_types a bv)) T_REG = None"
      by (auto simp: registration_ok_iff)
    then show ?thesis using missing[OF None False] apply_missing[OF None] by blast
  next
    case True
    then obtain p h r g where t: "types (snd (ensure_types a bv)) T_PATCH = Some p"
      "types (snd (ensure_types a bv)) T_HDR = Some h"
      "types (snd (ensure_types a bv)) T_RAND = Some r"
      "types (snd (ensure_types a bv)) T_REG = Some g"
      by (auto simp: registration_ok_iff)
    show ?thesis
    proof (cases "bv_end bv \<le> base + UCREG_OFF")
      case le: True
      then show ?thesis using nobytes[OF None t le] apply_found[OF None t, of base] by simp
    next
      case False
      then have pos: "0 < bv_end bv - (base + UCREG_OFF)" by simp
      show ?thesis using region[OF None t pos] apply_positive[OF None t pos] by simp
    qed
  qed
qed

section \<open>A tail shorter than one record\<close>

text \<open>Claim C10. When registration succeeded and between one and three bytes are
  available at \<open>base + 0x320\<close>, the sizing gives \<open>usable = 0\<close> and \<open>record_count = 0\<close>,
  and \<^verbatim>\<open>apply_layout_at\<close> does not skip the region: it has the host parse the
  declaration with \<^verbatim>\<open>uops[0]\<close> and, the record type being registered, defines at
  \<open>base + 0x320\<close> a variable whose array has no element, then logs the final line with
  \<open>uops=0x0\<close>. (Were the record type not registered, the parser's exception would
  escape.)\<close>

theorem apply_sub_record_tail:
  assumes "registration_ok a bv" "bv_end bv - (base + 0x320) \<in> {1, 2, 3}"
  shows "region_sizing (bv_end bv) (base + UCREG_OFF) = (0, 0)
     \<and> filter is_parse (new_calls bv (snd (apply_layout_at a bv base))) =
         [ParseTypeString (type_str 0)]
     \<and> (case types (snd (ensure_types a bv)) T_UOP of
          None \<Rightarrow> fst (apply_layout_at a bv base) = Some (HostError ''unknown type'')
        | Some uop_t \<Rightarrow>
            fst (apply_layout_at a bv base) = None
            \<and> data_vars (snd (apply_layout_at a bv base)) (base + 0x320) =
                Some (TStruct False [(TArray (TNamed T_UOP uop_t) 0, ''uops'')])
            \<and> last (filter is_define_var (new_calls bv (snd (apply_layout_at a bv base)))) =
                DefineUserDataVar (base + 0x320)
                  (TStruct False [(TArray (TNamed T_UOP uop_t) 0, ''uops'')])
            \<and> last (log (snd (apply_layout_at a bv base))) = (Info, applied_msg base 0))"
proof -
  let ?bv0 = "snd (ensure_types a bv)"
  from assms(1) obtain p h r g where ok: "fst (ensure_types a bv) = None"
    and t: "types ?bv0 T_PATCH = Some p" "types ?bv0 T_HDR = Some h"
      "types ?bv0 T_RAND = Some r" "types ?bv0 T_REG = Some g"
    by (auto simp: registration_ok_iff)
  obtain cs where cs: "calls ?bv0 = calls bv @ cs" "list_all is_define_type cs"
    using ensure_types_calls by blast
  let ?bvf = "define_fixed (check_size ?bv0 base) base p h r"
  have sz: "region_sizing (bv_end bv) (base + UCREG_OFF) = (0, 0)"
    using assms(2) by (intro sizing_small) (simp add: UCREG_OFF_def)
  have lt: "\<not> base + UCREG_OFF \<ge> bv_end bv"
    using assms(2) by (auto simp: UCREG_OFF_def)
  have ap: "apply_layout_at a bv base =
      apply_region ?bvf base g (bv_end bv) (base + UCREG_OFF)"
    using apply_found[OF ok t, of base] lt by simp
  show ?thesis
  proof (cases "types ?bv0 T_UOP")
    case None
    have "apply_layout_at a bv base =
        (Some (HostError ''unknown type''), called (ParseTypeString (type_str 0)) ?bvf)"
      unfolding ap using apply_region_auto_fail[of "bv_end bv" "base + UCREG_OFF" ?bvf base g]
        None sz by (simp add: UCREG_SIZE_def)
    then show ?thesis using None sz cs
      by (simp add: new_calls_def define_type_not_parse)
  next
    case (Some u)
    have "apply_layout_at a bv base =
        (None, log_info (applied_msg base 0)
           (called UpdateAnalysis
              (define_var (called (ParseTypeString (type_str 0)) ?bvf) (base + UCREG_OFF)
                 (TStruct False [(TArray (TNamed T_UOP u) 0, ''uops'')])
                 (Some ''amd_ucode_region'') None)))"
      unfolding ap
      using apply_region_auto[of "bv_end bv" "base + UCREG_OFF" ?bvf u base g] Some sz
      by (simp add: UCREG_SIZE_def)
    then show ?thesis using Some sz cs
      by (simp add: new_calls_def define_type_not_parse define_type_not_var UCREG_OFF_def)
  qed
qed

theorem apply_sub_record_tail_witness:
  "registration_ok api_full (bv_fresh 0x322)
   \<and> bv_end (bv_fresh 0x322) - (0 + 0x320) \<in> {1, 2, 3}
   \<and> region_sizing (bv_end (bv_fresh 0x322)) (0 + UCREG_OFF) = (0, 0)
   \<and> filter is_parse (new_calls (bv_fresh 0x322) (snd (apply_layout_at api_full (bv_fresh 0x322) 0)))
       = [ParseTypeString (type_str 0)]"
proof -
  have h1: "registration_ok api_full (bv_fresh 0x322)"
    by (rule capable_registration[OF api_full_ints api_full_structs]) simp
  have h2: "bv_end (bv_fresh 0x322) - (0 + 0x320) \<in> {1, 2, 3}" by simp
  show ?thesis
    using h1 h2 apply_sub_record_tail[OF h1 h2] by blast
qed

section \<open>Registered type or one-off type\<close>

text \<open>Claim C2. With registration succeeded and bytes available at \<open>base + 0x320\<close>:
  the registry after the call is the registry as registration left it, in either
  branch. If \<open>usable = 0x3500\<close>, the variable at \<open>base + 0x320\<close> has the type
  registered as \<^verbatim>\<open>AMD_Zen_MicrocodeRegion\<close> and the host parses nothing. Otherwise
  \<open>usable < 0x3500\<close>, the host is asked to parse exactly one declaration, with
  \<open>record_count\<close> records, and the variable has that structure of \<open>record_count\<close>
  references to the record type. A second call on the resulting view parses the same
  declaration again, leaves the registry as it is and types the region the same
  way.\<close>

theorem region_type_choice:
  assumes "registration_ok a bv" "0 < bv_end bv - (base + 0x320)"
  shows "let bv0 = snd (ensure_types a bv);
             res = apply_layout_at a bv base;
             usable = fst (region_sizing (bv_end bv) (base + UCREG_OFF));
             record_count = snd (region_sizing (bv_end bv) (base + UCREG_OFF));
             res2 = apply_layout_at a (snd res) base
         in types (snd res) = types bv0
            \<and> (usable = 0x3500 \<longrightarrow>
                 fst res = None
                 \<and> data_vars (snd res) (base + 0x320) = types bv0 T_REG
                 \<and> filter is_parse (new_calls bv (snd res)) = [])
            \<and> (usable \<noteq> 0x3500 \<longrightarrow>
                 usable < 0x3500
                 \<and> filter is_parse (new_calls bv (snd res)) =
                     [ParseTypeString (type_str record_count)]
                 \<and> (\<forall>uop_t. types bv0 T_UOP = Some uop_t \<longrightarrow>
                       fst res = None
                       \<and> data_vars (snd res) (base + 0x320) =
                           Some (TStruct False
                                   [(TArray (TNamed T_UOP uop_t) (nat record_count), ''uops'')])))
            \<and> types (snd res2) = types (snd res)
            \<and> filter is_parse (new_calls (snd res) (snd res2)) =
                filter is_parse (new_calls bv (snd res))
            \<and> data_vars (snd res2) (base + 0x320) = data_vars (snd res) (base + 0x320)"
proof -
  let ?bv0 = "snd (ensure_types a bv)"
  from assms(1) obtain p h r g where ok: "fst (ensure_types a bv) = None"
    and t: "types ?bv0 T_PATCH = Some p" "types ?bv0 T_HDR = Some h"
      "types ?bv0 T_RAND = Some r" "types ?bv0 T_REG = Some g"
    by (auto simp: registration_ok_iff)
  obtain cs where cs: "calls ?bv0 = calls bv @ cs" "list_all is_define_type cs"
    using ensure_types_calls by blast
  have pos: "0 < bv_end bv - (base + UCREG_OFF)"
    using assms(2) by (simp add: UCREG_OFF_def)
  let ?bvf = "define_fixed (check_size ?bv0 base) base p h r"
  let ?res = "region_result ?bvf base g (types ?bv0 T_UOP)"
  have ap: "apply_layout_at a bv base = ?res"
    by (rule apply_positive[OF ok t pos])
  let ?bv1 = "snd ?res"
  have t1: "types ?bv1 = types ?bv0" by simp
  have e1: "ensure_types a ?bv1 = (None, ?bv1)"
    by (rule ensure_types_noop) (simp add: t)
  let ?bvf2 = "define_fixed (check_size ?bv1 base) base p h r"
  have ap2: "apply_layout_at a ?bv1 base = region_result ?bvf2 base g (types ?bv0 T_UOP)"
    using apply_positive[of a ?bv1 p h r g base] e1 t pos by simp
  have le: "fst (region_sizing (bv_end bv) (base + UCREG_OFF)) \<le> 0x3500"
    by (rule sizing_le)
  show ?thesis
    unfolding Let_def ap ap2
    using t cs le
    by (auto simp: region_result_fst region_result_data_vars region_result_calls new_calls_def
        define_type_not_parse UCREG_OFF_def UCREG_SIZE_def split: option.splits)
qed

theorem region_type_choice_witness:
  "registration_ok api_full (bv_fresh 0x723)
   \<and> 0 < bv_end (bv_fresh 0x723) - (0 + 0x320)
   \<and> filter is_parse (new_calls (bv_fresh 0x723) (snd (apply_layout_at api_full (bv_fresh 0x723) 0)))
       = [ParseTypeString (type_str 0x100)]
   \<and> types (snd (apply_layout_at api_full (bv_fresh 0x723) 0))
       = types (snd (ensure_types api_full (bv_fresh 0x723)))"
proof -
  have h1: "registration_ok api_full (bv_fresh 0x723)"
    by (rule capable_registration[OF api_full_ints api_full_structs]) simp
  have h2: "0 < bv_end (bv_fresh 0x723) - (0 + 0x320)" by simp
  have sz: "region_sizing 0x723 UCREG_OFF = (0x400, 0x100)"
    by (simp add: region_sizing_eq UCREG_OFF_def)
  show ?thesis
    using h1 h2 region_type_choice[OF h1 h2] by (simp add: Let_def sz)
qed

section \<open>Applying twice\<close>





section \<open>Failed registration\<close>

lemma make_enum_full:
  "make_enum_type_best_effort api_full = Some (TEnum 1 False ZEN_OPCODE_ENUM)"
  by (simp add: make_enum_type_best_effort_def api_full_def ZEN_OPCODE_ENUM_def enum_of_def)

lemma make_enum_no_struct:
  "make_enum_type_best_effort api_no_struct = Some (TEnum 1 False ZEN_OPCODE_ENUM)"
  by (simp add: make_enum_type_best_effort_def api_no_struct_def api_full_def
      ZEN_OPCODE_ENUM_def enum_of_def)

lemma no_struct_build_uop:
  "build_uop api_no_struct t = Inl (RuntimeError no_structure_msg)"
  by (simp add: build_uop_def api_no_struct_def api_full_def uint_def type_structure_def)

lemma no_struct_ensure:
  "ensure_types api_no_struct (bv_fresh e) =
     (Some (RuntimeError no_structure_msg),
      log_info ''AMD_Zen_Opcode enum created (u8).''
        (define_user_type T_ENUM (TEnum 1 False ZEN_OPCODE_ENUM) (bv_fresh e)))"
  by (simp add: ensure_types_def opcode_field_def make_enum_no_struct no_struct_build_uop)

lemma no_struct_apply:
  "apply_layout_at api_no_struct (bv_fresh e) base =
     (Some (RuntimeError no_structure_msg),
      log_info ''AMD_Zen_Opcode enum created (u8).''
        (define_user_type T_ENUM (TEnum 1 False ZEN_OPCODE_ENUM) (bv_fresh e)))"
  using apply_raise[of api_no_struct "bv_fresh e" "RuntimeError no_structure_msg" base]
  by (simp add: no_struct_ensure)

text \<open>Claim C5, as stated, fails. On a build that has neither \<^verbatim>\<open>Type.structure\<close> nor
  \<^verbatim>\<open>Type.structure_type\<close> the record type \<^verbatim>\<open>AMD_Zen_MicroOp\<close> cannot be built. The call
  ends with the \<^verbatim>\<open>RuntimeError\<close> of \<^verbatim>\<open>_type_structure\<close>, whose message does not contain
  the name of that type, and the only log line is the one about the enumeration, which
  does not contain it either.\<close>

theorem registration_failure_unnamed:
  "build_uop api_no_struct (TNamed T_ENUM (TEnum 1 False ZEN_OPCODE_ENUM)) =
     Inl (RuntimeError no_structure_msg)
   \<and> fst (apply_layout_at api_no_struct (bv_fresh 0x3820) 0) = Some (RuntimeError no_structure_msg)
   \<and> types (snd (apply_layout_at api_no_struct (bv_fresh 0x3820) 0)) T_UOP = None
   \<and> log (snd (apply_layout_at api_no_struct (bv_fresh 0x3820) 0)) =
       [(Info, ''AMD_Zen_Opcode enum created (u8).'')]
   \<and> \<not> sublist T_UOP no_structure_msg
   \<and> \<not> sublist T_UOP ''AMD_Zen_Opcode enum created (u8).''"
  by (simp add: no_struct_apply no_struct_build_uop names no_structure_msg_def sublist_Cons_right
      prefix_Cons)

lemma filter_error_none:
  "\<forall>x \<in> set l. fst x \<noteq> Error \<Longrightarrow> filter (\<lambda>x. fst x = Error) l = []"
  by (induction l) auto

lemma filter_error_check [simp]: "filter (\<lambda>x. fst x = Error) (check_log bv base) = []"
  using check_log_no_error[of _ bv base] by (intro filter_error_none) auto

text \<open>Claim C5, amended. If registration fails (\<^verbatim>\<open>_ensure_types\<close> raises, or one of
  the four types is not found afterwards), \<^verbatim>\<open>apply_layout_at\<close> leaves variables, labels
  and comments as they were, and the only calls it makes on the view are type
  registrations. The failure surfaces once: as the exception that escapes, with no
  error logged, or as the single error line \<open>types_missing_msg\<close>.\<close>

theorem registration_failure_aborts:
  assumes "\<not> registration_ok a bv"
  shows "let res = apply_layout_at a bv base
         in data_vars (snd res) = data_vars bv
            \<and> symbols (snd res) = symbols bv
            \<and> comments (snd res) = comments bv
            \<and> list_all is_define_type (new_calls bv (snd res))
            \<and> (case fst (ensure_types a bv) of
                  Some e \<Rightarrow>
                    fst res = Some e
                    \<and> filter (\<lambda>x. fst x = Error) (new_log bv (snd res)) = []
                | None \<Rightarrow>
                    fst res = None
                    \<and> filter (\<lambda>x. fst x = Error) (new_log bv (snd res)) =
                        [(Error, types_missing_msg)])"
proof -
  let ?bv0 = "snd (ensure_types a bv)"
  obtain cs where cs: "calls ?bv0 = calls bv @ cs" "list_all is_define_type cs"
    using ensure_types_calls by blast
  obtain l where l: "log ?bv0 = log bv @ l" "\<forall>x \<in> set l. fst x \<noteq> Error"
    using ensure_types_log by blast
  note fl = filter_error_none[OF l(2)]
  show ?thesis
  proof (cases rule: apply_shape[of a bv base])
    case (raise e)
    then show ?thesis using cs l fl by (simp add: Let_def new_calls_def new_log_def)
  next
    case missing
    then show ?thesis using cs l fl by (simp add: Let_def new_calls_def new_log_def)
  next
    case (nobytes p h r g)
    then have "registration_ok a bv" by (simp add: registration_ok_iff)
    with assms show ?thesis by simp
  next
    case (region p h r g)
    then have "registration_ok a bv" by (simp add: registration_ok_iff)
    with assms show ?thesis by simp
  qed
qed

lemma no_struct_not_ok: "\<not> registration_ok api_no_struct (bv_fresh e)"
  by (simp add: registration_ok_def no_struct_ensure)

theorem registration_failure_aborts_witness:
  "\<not> registration_ok api_no_struct (bv_fresh 0x3820)
   \<and> data_vars (snd (apply_layout_at api_no_struct (bv_fresh 0x3820) 0)) = Map.empty
   \<and> list_all is_define_type
       (new_calls (bv_fresh 0x3820) (snd (apply_layout_at api_no_struct (bv_fresh 0x3820) 0)))"
  using no_struct_not_ok[of "0x3820"]
    registration_failure_aborts[OF no_struct_not_ok[of "0x3820"], of 0]
  by (simp add: Let_def)

section \<open>Registering once\<close>

lemma ensure_types_n_noop:
  "types bv T_PATCH \<noteq> None \<Longrightarrow> ensure_types_n a n bv = (None, bv)"
  by (induction n) (simp_all add: ensure_types_noop)

lemma ensure_types_n_once:
  assumes "fst (ensure_types a bv) = None"
  shows "ensure_types_n a (Suc n) bv = ensure_types a bv"
proof -
  obtain bv' where e: "ensure_types a bv = (None, bv')"
    using assms by (cases "ensure_types a bv") simp
  then have "types bv' T_PATCH \<noteq> None" using ensure_types_patch[OF assms] by simp
  then show ?thesis using e by (simp add: ensure_types_n_noop)
qed

lemma ensure_types_pass:
  assumes "types bv T_PATCH = None" "fst (ensure_types a bv) = None"
  shows "defined_names (new_calls bv (snd (ensure_types a bv))) =
     (case make_enum_type_best_effort a of None \<Rightarrow> [] | Some t \<Rightarrow> [T_ENUM])
       @ [T_UOP, T_REG, T_HDR, T_RAND, T_PATCH]"
  using assms
  by (auto simp: ensure_types_def opcode_field_def Let_def new_calls_def
      split: option.splits sum.splits prod.splits if_splits)

text \<open>Claim C6. If \<^verbatim>\<open>AMD_MC_Patch\<close> is registered, any number of calls of
  \<^verbatim>\<open>_ensure_types\<close> return normally and leave the view exactly as it was. If a call
  returns normally, \<^verbatim>\<open>AMD_MC_Patch\<close> is registered afterwards, so \<open>n + 1\<close> calls in a row
  leave the view one call leaves. Starting without \<^verbatim>\<open>AMD_MC_Patch\<close>, the registrations
  made by \<open>n + 1\<close> calls are those of one pass: the enumeration if the host builds
  one, then the record, the region, the header, the random blocks and the container,
  each once.\<close>

theorem ensure_types_once:
  "(types bv T_PATCH \<noteq> None \<longrightarrow> (\<forall>n. ensure_types_n a n bv = (None, bv)))
   \<and> (fst (ensure_types a bv) = None \<longrightarrow>
        types (snd (ensure_types a bv)) T_PATCH \<noteq> None
        \<and> (\<forall>n. ensure_types_n a (Suc n) bv = ensure_types a bv))
   \<and> (types bv T_PATCH = None \<and> fst (ensure_types a bv) = None \<longrightarrow>
        (\<forall>n. defined_names (new_calls bv (snd (ensure_types_n a (Suc n) bv))) =
           (case make_enum_type_best_effort a of None \<Rightarrow> [] | Some t \<Rightarrow> [T_ENUM])
             @ [T_UOP, T_REG, T_HDR, T_RAND, T_PATCH]))"
  using ensure_types_n_noop ensure_types_n_once ensure_types_patch ensure_types_pass
  by (simp add: ensure_types_n_once del: ensure_types_n.simps)

theorem ensure_types_once_witness:
  "types (bv_fresh 0) T_PATCH = None
   \<and> fst (ensure_types api_full (bv_fresh 0)) = None
   \<and> types (snd (ensure_types api_full (bv_fresh 0))) T_PATCH \<noteq> None
   \<and> ensure_types_n api_full 3 (bv_fresh 0) = ensure_types api_full (bv_fresh 0)
   \<and> ensure_types_n api_full 2 (snd (ensure_types api_full (bv_fresh 0))) =
       (None, snd (ensure_types api_full (bv_fresh 0)))
   \<and> defined_names (new_calls (bv_fresh 0) (snd (ensure_types_n api_full 3 (bv_fresh 0)))) =
       [T_ENUM, T_UOP, T_REG, T_HDR, T_RAND, T_PATCH]"
proof -
  have h1: "types (bv_fresh 0) T_PATCH = None" by simp
  have ok: "registration_ok api_full (bv_fresh 0)"
    by (rule capable_registration[OF api_full_ints api_full_structs h1])
  then have h2: "fst (ensure_types api_full (bv_fresh 0)) = None"
    by (simp add: registration_ok_iff)
  note t1 = ensure_types_once[of "bv_fresh 0" api_full]
  note t2 = ensure_types_once[of "snd (ensure_types api_full (bv_fresh 0))" api_full]
  from t1 h2 have a: "types (snd (ensure_types api_full (bv_fresh 0))) T_PATCH \<noteq> None"
    and b: "ensure_types_n api_full (Suc 2) (bv_fresh 0) = ensure_types api_full (bv_fresh 0)"
    by blast+
  from t1 h1 h2 have c:
    "defined_names (new_calls (bv_fresh 0) (snd (ensure_types_n api_full (Suc 2) (bv_fresh 0)))) =
       (case make_enum_type_best_effort api_full of None \<Rightarrow> [] | Some t \<Rightarrow> [T_ENUM])
         @ [T_UOP, T_REG, T_HDR, T_RAND, T_PATCH]"
    by blast
  from t2 a have d: "ensure_types_n api_full 2 (snd (ensure_types api_full (bv_fresh 0))) =
      (None, snd (ensure_types api_full (bv_fresh 0)))"
    by blast
  show ?thesis
    using h1 h2 a b c d by (simp add: make_enum_full del: ensure_types_n.simps)
qed

section \<open>A host without enumerations\<close>

lemma apply_clean:
  assumes "registration_ok a bv" "types (snd (ensure_types a bv)) T_UOP \<noteq> None"
  shows "fst (apply_layout_at a bv base) = None
     \<and> filter (\<lambda>x. fst x = Error) (new_log bv (snd (apply_layout_at a bv base))) = []"
proof -
  let ?bv0 = "snd (ensure_types a bv)"
  obtain l where l: "log ?bv0 = log bv @ l" "\<forall>x \<in> set l. fst x \<noteq> Error"
    using ensure_types_log by blast
  note fl = filter_error_none[OF l(2)]
  show ?thesis
  proof (cases rule: apply_shape[of a bv base])
    case (raise e)
    then show ?thesis using assms(1) by (simp add: registration_ok_iff)
  next
    case missing
    then show ?thesis using assms(1) by simp
  next
    case (nobytes p h r g)
    then show ?thesis using l fl by (simp add: new_log_def)
  next
    case (region p h r g)
    then show ?thesis using l fl assms(2)
      by (auto simp: new_log_def region_result_fst region_result_log)
  qed
qed






section \<open>Re-analysis after the definitions\<close>

text \<open>Claim C8 against the code. On a host where every call works, with an image of
  0x100 bytes and base 0, \<^verbatim>\<open>apply_layout_at\<close> returns normally after three variable
  definitions, and \<^verbatim>\<open>update_analysis\<close> is not among the calls it made: the
  \<^verbatim>\<open>return\<close> after the no-bytes warning comes before it. With the full 0x3820 bytes
  the same call ends with \<^verbatim>\<open>update_analysis\<close>.\<close>

theorem early_return_skips_analysis:
  "fst (apply_layout_at api_full (bv_fresh 0x100) 0) = None
   \<and> length (filter is_define_var (calls (snd (apply_layout_at api_full (bv_fresh 0x100) 0)))) = 3
   \<and> UpdateAnalysis \<notin> set (calls (snd (apply_layout_at api_full (bv_fresh 0x100) 0)))
   \<and> fst (apply_layout_at api_full (bv_fresh 0x3820) 0) = None
   \<and> last (calls (snd (apply_layout_at api_full (bv_fresh 0x3820) 0))) = UpdateAnalysis"
proof -
  have part1: "fst (apply_layout_at api_full (bv_fresh 0x100) 0) = None
      \<and> length (filter is_define_var (calls (snd (apply_layout_at api_full (bv_fresh 0x100) 0)))) = 3
      \<and> UpdateAnalysis \<notin> set (calls (snd (apply_layout_at api_full (bv_fresh 0x100) 0)))"
  proof -
    let ?bv = "bv_fresh 0x100"
    have ok: "registration_ok api_full ?bv"
      by (rule capable_registration[OF api_full_ints api_full_structs]) simp
    obtain cs where cs: "calls (snd (ensure_types api_full ?bv)) = calls ?bv @ cs"
        "list_all is_define_type cs"
      using ensure_types_calls by blast
    show ?thesis
    proof (cases rule: apply_shape[of api_full ?bv 0])
      case (raise e)
      then show ?thesis using ok by (simp add: registration_ok_iff)
    next
      case missing
      then show ?thesis using ok by simp
    next
      case (nobytes p h r g)
      then show ?thesis using cs
        by (simp add: define_type_not_var define_type_not_analysis)
    next
      case (region p h r g)
      then show ?thesis by (simp add: UCREG_OFF_def)
    qed
  qed
  have part2: "fst (apply_layout_at api_full (bv_fresh 0x3820) 0) = None
      \<and> last (calls (snd (apply_layout_at api_full (bv_fresh 0x3820) 0))) = UpdateAnalysis"
  proof -
    let ?bv = "bv_fresh 0x3820"
    have ok: "registration_ok api_full ?bv"
      by (rule capable_registration[OF api_full_ints api_full_structs]) simp
    have sz: "region_sizing 0x3820 UCREG_OFF = (0x3500, 0xD40)"
      by (simp add: region_sizing_eq UCREG_OFF_def)
    show ?thesis
    proof (cases rule: apply_shape[of api_full ?bv 0])
      case (raise e)
      then show ?thesis using ok by (simp add: registration_ok_iff)
    next
      case missing
      then show ?thesis using ok by simp
    next
      case (nobytes p h r g)
      then show ?thesis by (simp add: UCREG_OFF_def)
    next
      case (region p h r g)
      then show ?thesis
        by (simp add: region_result_fst region_result_calls sz UCREG_SIZE_def)
    qed
  qed
  from part1 part2 show ?thesis by simp
qed

section \<open>The registered layout\<close>











lemma ensure_types_registered:
  assumes "types bv T_PATCH = None" "fst (ensure_types a bv) = None"
  shows "\<exists>opc u g h r p.
     fst (opcode_field a bv) = Inr opc
     \<and> build_uop a opc = Inr u \<and> build_reg a (TNamed T_UOP u) = Inr g
     \<and> build_hdr a = Inr h \<and> build_rand a = Inr r \<and> build_patch a (TNamed T_HDR h) = Inr p
     \<and> types (snd (ensure_types a bv)) T_UOP = Some u
     \<and> types (snd (ensure_types a bv)) T_REG = Some g
     \<and> types (snd (ensure_types a bv)) T_HDR = Some h
     \<and> types (snd (ensure_types a bv)) T_RAND = Some r
     \<and> types (snd (ensure_types a bv)) T_PATCH = Some p"
  using assms
  by (auto simp: ensure_types_def Let_def names
      split: option.splits sum.splits prod.splits if_splits)












section \<open>The usable prefix of the region\<close>

lemma apply_final_log:
  assumes "registration_ok a bv" "0 < bv_end bv - (base + UCREG_OFF)"
    "fst (apply_layout_at a bv base) = None"
  shows "last (log (snd (apply_layout_at a bv base))) =
     (Info, applied_msg base (snd (region_sizing (bv_end bv) (base + UCREG_OFF))))"
proof (cases rule: apply_shape[of a bv base])
  case (raise e)
  then show ?thesis using assms(1) by (simp add: registration_ok_iff)
next
  case missing
  then show ?thesis using assms(1) by simp
next
  case (nobytes p h r g)
  then show ?thesis using assms(2) by simp
next
  case (region p h r g)
  then show ?thesis using assms(3)
    by (auto simp: region_result_fst region_result_log split: if_splits option.splits)
qed

text \<open>Claim C1. When \<open>available = bv.end - (base + 0x320)\<close> is positive, the sizing of
  \<^verbatim>\<open>apply_layout_at\<close> yields \<open>usable = min available 0x3500\<close> rounded down to a
  multiple of 4: it is a multiple of 4, at most the minimum, less than 4 below it, and
  no multiple of 4 that fits is larger, so no partial trailing record is counted; and
  \<open>record_count = usable / 4\<close>. A call that gets past registration and returns
  normally reports that \<open>record_count\<close> in its final log line.\<close>

theorem sizing_floor:
  assumes "0 < bv_end bv - (base + 0x320)"
  shows "let available = bv_end bv - (base + 0x320);
             m = min available 0x3500;
             (usable, record_count) = region_sizing (bv_end bv) (base + UCREG_OFF)
         in usable = 4 * (m div 4) \<and> usable mod 4 = 0 \<and> 0 \<le> usable \<and> usable \<le> m
            \<and> m < usable + 4 \<and> (\<forall>k. 4 * k \<le> m \<longrightarrow> 4 * k \<le> usable)
            \<and> record_count = usable div 4 \<and> record_count * 4 = usable
            \<and> (registration_ok a bv \<and> fst (apply_layout_at a bv base) = None \<longrightarrow>
                 last (log (snd (apply_layout_at a bv base))) =
                   (Info, applied_msg base record_count))"
proof -
  have m: "0 < min (bv_end bv - (base + 0x320)) (0x3500::int)"
    using assms by simp
  have pos: "0 < bv_end bv - (base + UCREG_OFF)"
    using assms by (simp add: UCREG_OFF_def)
  have fin: "registration_ok a bv \<and> fst (apply_layout_at a bv base) = None \<longrightarrow>
      last (log (snd (apply_layout_at a bv base))) =
        (Info, applied_msg base (min (bv_end bv - (base + 0x320)) 0x3500 div 4))"
    using apply_final_log[of a bv base] pos by (simp add: region_sizing_eq UCREG_OFF_def)
  show ?thesis
    unfolding region_sizing_eq UCREG_OFF_def Let_def prod.case
    using floor4_props[OF m] fin by simp
qed

theorem sizing_floor_witness:
  "0 < bv_end (bv_fresh 0x723) - (0 + 0x320)
   \<and> region_sizing (bv_end (bv_fresh 0x723)) (0 + UCREG_OFF) = (0x400, 0x100)
   \<and> registration_ok api_full (bv_fresh 0x723)
   \<and> fst (apply_layout_at api_full (bv_fresh 0x723) 0) = None
   \<and> last (log (snd (apply_layout_at api_full (bv_fresh 0x723) 0))) = (Info, applied_msg 0 0x100)"
proof -
  have h: "0 < bv_end (bv_fresh 0x723) - (0 + 0x320)" by simp
  have h1: "types (bv_fresh 0x723) T_PATCH = None" by simp
  have ok: "registration_ok api_full (bv_fresh 0x723)"
    by (rule capable_registration[OF api_full_ints api_full_structs h1])
  then have h2: "fst (ensure_types api_full (bv_fresh 0x723)) = None"
    by (simp add: registration_ok_iff)
  have "types (snd (ensure_types api_full (bv_fresh 0x723))) T_UOP \<noteq> None"
    using ensure_types_registered[OF h1 h2] by auto
  from apply_clean[OF ok this, of 0]
  have r: "fst (apply_layout_at api_full (bv_fresh 0x723) 0) = None" by simp
  have sz: "region_sizing 0x723 UCREG_OFF = (0x400, 0x100)"
    by (simp add: region_sizing_eq UCREG_OFF_def)
  show ?thesis
    using h ok r sizing_floor[OF h, of api_full] by (simp add: Let_def sz)
qed

end
